theory Spec2Isabelle
  imports Complex_Main "HOL-Library.AList" "HOL-Library.Sublist"
begin

section \<open>Reward-model benchmark runner (scripts/run\_rm.py)\<close>

text \<open>
  A shallow embedding of \<^verbatim>\<open>main\<close> of \<^verbatim>\<open>scripts/run_rm.py\<close>: the selection of the model
  adapter from the model identifier and the chat-template name, the formatting of the
  dataset, the pad-token correction, the two inference paths, and the per-subset report.
  The libraries the script calls (datasets, transformers, torch) are outside the
  repository; their part is either a parameter of the model (the scoring pipeline, torch's
  default collation, the conversation-template formatter) or written out as the library
  documents it (\<^verbatim>\<open>Dataset.map\<close>, \<^verbatim>\<open>add_column\<close>, \<^verbatim>\<open>unique\<close>, \<^verbatim>\<open>filter\<close>).
\<close>

subsection \<open>Python values and errors\<close>

datatype py_error =
    KeyError
  | TypeError
  | ValueError
  | IndexError
  | ZeroDivisionError
  | AttributeError

text \<open>
  A Python float is a real number or \<^verbatim>\<open>nan\<close>; the rounding of doubles and the infinities
  are not modelled.
\<close>

datatype py_float =
    Nan
  | Finite real

text \<open>
  The values held in dataset cells: \<^verbatim>\<open>None\<close>, integers, floats, strings, lists and
  dictionaries with string keys (in insertion order).
\<close>

datatype pyval =
    PNone
  | PInt int
  | PFloat py_float
  | PStr string
  | PList "pyval list"
  | PDict "(string \<times> pyval) list"

text \<open>
  Python's \<^verbatim>\<open>==\<close> on two cell values that were decoded separately (no object is shared):
  an integer and a float are equal when they are the same number, \<^verbatim>\<open>nan\<close> is equal to
  nothing, not even to itself, lists are compared element by element and dictionaries key
  by key.
\<close>

definition dict_eq_by :: "('k \<times> ('v \<Rightarrow> bool)) list \<Rightarrow> ('k \<times> 'v) list \<Rightarrow> bool" where
  "dict_eq_by tests e \<longleftrightarrow>
     set (map fst tests) = set (map fst e) \<and>
     list_all (\<lambda>kt. case map_of e (fst kt) of None \<Rightarrow> False | Some v \<Rightarrow> snd kt v) tests"

primrec py_eq :: "pyval \<Rightarrow> pyval \<Rightarrow> bool" where
  "py_eq PNone w = (case w of PNone \<Rightarrow> True | _ \<Rightarrow> False)"
| "py_eq (PInt a) w =
     (case w of
        PInt b \<Rightarrow> a = b
      | PFloat g \<Rightarrow> (case g of Nan \<Rightarrow> False | Finite y \<Rightarrow> real_of_int a = y)
      | _ \<Rightarrow> False)"
| "py_eq (PFloat f) w =
     (case f of
        Nan \<Rightarrow> False
      | Finite x \<Rightarrow>
          (case w of
             PInt b \<Rightarrow> x = real_of_int b
           | PFloat g \<Rightarrow> (case g of Nan \<Rightarrow> False | Finite y \<Rightarrow> x = y)
           | _ \<Rightarrow> False))"
| "py_eq (PStr s) w = (case w of PStr u \<Rightarrow> s = u | _ \<Rightarrow> False)"
| "py_eq (PList xs) w =
     (case w of PList ys \<Rightarrow> list_all2 (\<lambda>test y. test y) (map py_eq xs) ys | _ \<Rightarrow> False)"
| "py_eq (PDict d) w =
     (case w of PDict e \<Rightarrow> dict_eq_by (map (map_prod id py_eq) d) e | _ \<Rightarrow> False)"

text \<open>Python's \<^verbatim>\<open>needle in hay\<close> on strings: \<^verbatim>\<open>needle\<close> occurs as a contiguous substring.\<close>

fun py_in :: "string \<Rightarrow> string \<Rightarrow> bool" where
  "py_in needle [] = (needle = [])"
| "py_in needle (c # cs) = (prefix needle (c # cs) \<or> py_in needle cs)"

subsection \<open>Command-line arguments (get\_args)\<close>

record args =
  model :: string
  tokenizer :: "string option"
  chat_template :: string
  direct_load :: bool
  do_not_save :: bool
  batch_size :: int
  pref_sets :: bool

subsection \<open>Adapter selection (main, lines 93--126)\<close>

datatype model_builder =
    AutoModelForSequenceClassification
  | build_starling_rm
  | LlamaRewardModel
  | DebertaV2PairRM
  | T5ForConditionalGeneration

datatype pipeline_builder =
    pipeline
  | StarlingPipeline
  | OpenBMBPipeline
  | PairRMPipeline
  | SHPPipeline

record adapter =
  quantized :: bool
  custom_dialogue :: bool
  model_builder :: model_builder
  pipeline_builder :: pipeline_builder

definition select_adapter :: "string \<Rightarrow> string \<Rightarrow> adapter" where
  "select_adapter m t =
     (if py_in ''oasst'' m \<or> py_in ''oasst'' t then
        \<lparr>quantized = True, custom_dialogue = False,
         model_builder = AutoModelForSequenceClassification, pipeline_builder = pipeline\<rparr>
      else if py_in ''Starling'' m \<or> py_in ''Starling'' t then
        \<lparr>quantized = False, custom_dialogue = False,
         model_builder = build_starling_rm, pipeline_builder = StarlingPipeline\<rparr>
      else if py_in ''openbmb'' m \<or> py_in ''openbmb'' t then
        \<lparr>quantized = True, custom_dialogue = False,
         model_builder = LlamaRewardModel, pipeline_builder = OpenBMBPipeline\<rparr>
      else if py_in ''PairRM'' m \<or> py_in ''PairRM'' t then
        \<lparr>quantized = True, custom_dialogue = True,
         model_builder = DebertaV2PairRM, pipeline_builder = PairRMPipeline\<rparr>
      else if py_in ''SHP'' m \<or> py_in ''SHP'' t then
        \<lparr>quantized = True, custom_dialogue = True,
         model_builder = T5ForConditionalGeneration, pipeline_builder = SHPPipeline\<rparr>
      else
        \<lparr>quantized = True, custom_dialogue = False,
         model_builder = AutoModelForSequenceClassification, pipeline_builder = pipeline\<rparr>)"

text \<open>
  The registry as the specification words it: an ordered list of (discriminating
  substring, adapter descriptor) pairs, scanned once, first match wins, with the generic
  adapter as the fallback.  It is compared with \<^const>\<open>select_adapter\<close> below.
\<close>

definition generic_adapter :: adapter where
  "generic_adapter =
     \<lparr>quantized = True, custom_dialogue = False,
      model_builder = AutoModelForSequenceClassification, pipeline_builder = pipeline\<rparr>"

definition spec_registry :: "(string \<times> adapter) list" where
  "spec_registry =
     [(''oasst'', generic_adapter),
      (''Starling'', \<lparr>quantized = False, custom_dialogue = False,
         model_builder = build_starling_rm, pipeline_builder = StarlingPipeline\<rparr>),
      (''openbmb'', \<lparr>quantized = True, custom_dialogue = False,
         model_builder = LlamaRewardModel, pipeline_builder = OpenBMBPipeline\<rparr>),
      (''PairRM'', \<lparr>quantized = True, custom_dialogue = True,
         model_builder = DebertaV2PairRM, pipeline_builder = PairRMPipeline\<rparr>),
      (''SHP'', \<lparr>quantized = True, custom_dialogue = True,
         model_builder = T5ForConditionalGeneration, pipeline_builder = SHPPipeline\<rparr>)]"

fun spec_first_match :: "(string \<times> adapter) list \<Rightarrow> string \<Rightarrow> string \<Rightarrow> adapter" where
  "spec_first_match [] m t = generic_adapter"
| "spec_first_match ((key, a) # rest) m t =
     (if py_in key m \<or> py_in key t then a else spec_first_match rest m t)"

subsection \<open>Building the scoring pipeline and choosing the inference path
  (main, lines 255--270 and 285)\<close>

text \<open>
  With \<^verbatim>\<open>--direct_load\<close> the selected \<^verbatim>\<open>pipeline_builder\<close> constructs the scoring callable;
  without it the script calls transformers' \<^verbatim>\<open>pipeline\<close> whatever adapter was selected.
\<close>

definition reward_pipe_constructor :: "bool \<Rightarrow> pipeline_builder \<Rightarrow> pipeline_builder" where
  "reward_pipe_constructor direct pb = (if direct then pb else pipeline)"

datatype exec_mode = UniformBatched | ManualBatchLoop

definition inference_mode :: "bool \<Rightarrow> pipeline_builder \<Rightarrow> exec_mode" where
  "inference_mode direct pb =
     (if \<not> direct \<or> pb = pipeline then UniformBatched else ManualBatchLoop)"

subsection \<open>Datasets\<close>

text \<open>
  A dataset row is a Python dictionary from column names to values; a dataset is its list
  of column names with its rows in order.  Failing lookups and library calls that raise
  are results \<open>Inl e\<close>; \<open>py_bind\<close> passes the first error on, as an uncaught exception
  does.
\<close>

type_synonym example = "(string \<times> pyval) list"

record dataset =
  column_names :: "string list"
  rows :: "example list"

definition py_bind :: "py_error + 'a \<Rightarrow> ('a \<Rightarrow> py_error + 'b) \<Rightarrow> py_error + 'b" where
  "py_bind r f = (case r of Inl e \<Rightarrow> Inl e | Inr v \<Rightarrow> f v)"

fun map_err :: "('a \<Rightarrow> py_error + 'b) \<Rightarrow> 'a list \<Rightarrow> py_error + 'b list" where
  "map_err f [] = Inr []"
| "map_err f (x # xs) =
     (case f x of
        Inl e \<Rightarrow> Inl e
      | Inr y \<Rightarrow> (case map_err f xs of Inl e \<Rightarrow> Inl e | Inr ys \<Rightarrow> Inr (y # ys)))"

definition getitem :: "('k \<times> 'v) list \<Rightarrow> 'k \<Rightarrow> py_error + 'v" where
  "getitem d k = (case map_of d k of None \<Rightarrow> Inl KeyError | Some v \<Rightarrow> Inr v)"

definition setitem :: "'k \<Rightarrow> 'v \<Rightarrow> ('k \<times> 'v) list \<Rightarrow> ('k \<times> 'v) list" where
  "setitem k v d = AList.update k v d"

text \<open>\<^verbatim>\<open>dataset[name]\<close>: the values of one column, in row order.\<close>

definition dataset_column :: "dataset \<Rightarrow> string \<Rightarrow> py_error + pyval list" where
  "dataset_column ds name =
     (if name \<in> set (column_names ds) then map_err (\<lambda>r. getitem r name) (rows ds)
      else Inl KeyError)"

text \<open>
  \<^verbatim>\<open>Dataset.map(function, remove_columns=cols)\<close> for a \<^verbatim>\<open>function\<close> that updates the row it is
  given and returns it, as the three formatting functions of the script do: every name in
  \<^verbatim>\<open>cols\<close> must be a column (else the call raises), the function is applied to each row in
  order, and the named columns are dropped from what it returns.  On an empty dataset only
  the columns are dropped.
\<close>

definition drop_columns :: "string list \<Rightarrow> example \<Rightarrow> example" where
  "drop_columns cols r = filter (\<lambda>(k, v). k \<notin> set cols) r"

definition dataset_map ::
  "(example \<Rightarrow> py_error + example) \<Rightarrow> string list \<Rightarrow> dataset \<Rightarrow> py_error + dataset" where
  "dataset_map f cols ds =
     (if \<not> set cols \<subseteq> set (column_names ds) then Inl ValueError
      else py_bind (map_err f (rows ds)) (\<lambda>rs.
        let out = map (drop_columns cols) rs in
        Inr \<lparr>column_names =
               (case out of
                  [] \<Rightarrow> filter (\<lambda>c. c \<notin> set cols) (column_names ds)
                | r # _ \<Rightarrow> map fst r),
             rows = out\<rparr>))"

subsection \<open>Dialogue formatting (main, lines 185--232)\<close>

definition make_conversation :: "pyval \<Rightarrow> pyval \<Rightarrow> pyval" where
  "make_conversation prompt answer =
     PList [PDict [(''role'', PStr ''user''), (''content'', prompt)],
            PDict [(''role'', PStr ''assistant''), (''content'', answer)]]"

definition map_conversations :: "example \<Rightarrow> py_error + example" where
  "map_conversations ex =
     py_bind (getitem ex ''prompt'') (\<lambda>p.
     py_bind (getitem ex ''chosen'') (\<lambda>c.
     let ex1 = setitem ''text_chosen'' (make_conversation p c) ex in
     py_bind (getitem ex1 ''prompt'') (\<lambda>p'.
     py_bind (getitem ex1 ''rejected'') (\<lambda>r.
     Inr (setitem ''text_rejected'' (make_conversation p' r) ex1)))))"

text \<open>\<^verbatim>\<open>prompt + [turn]\<close>: list concatenation; any other left operand raises \<^verbatim>\<open>TypeError\<close>.\<close>

fun py_add_list :: "pyval \<Rightarrow> pyval list \<Rightarrow> py_error + pyval" where
  "py_add_list (PList xs) ys = Inr (PList (xs @ ys))"
| "py_add_list PNone ys = Inl TypeError"
| "py_add_list (PInt n) ys = Inl TypeError"
| "py_add_list (PFloat f) ys = Inl TypeError"
| "py_add_list (PStr s) ys = Inl TypeError"
| "py_add_list (PDict d) ys = Inl TypeError"

definition map_conversations_testsets :: "example \<Rightarrow> py_error + example" where
  "map_conversations_testsets ex =
     py_bind (getitem ex ''prompt'') (\<lambda>prompt.
     py_bind (getitem ex ''chosen'') (\<lambda>c.
     py_bind (py_add_list prompt [PDict [(''role'', PStr ''assistant''), (''content'', c)]])
       (\<lambda>tc.
     let ex1 = setitem ''text_chosen'' tc ex in
     py_bind (getitem ex1 ''rejected'') (\<lambda>r.
     py_bind (py_add_list prompt [PDict [(''role'', PStr ''assistant''), (''content'', r)]])
       (\<lambda>tr.
     Inr (setitem ''text_rejected'' tr ex1))))))"

text \<open>
  The formatting step.  \<open>prepare_dialogue\<close> is \<^verbatim>\<open>herm.prepare_dialogue\<close> with the
  conversation template already supplied; it is not part of this file and is a parameter.
  The branch \<^verbatim>\<open>elif False\<close> of the script is never taken.
\<close>

definition format_dataset ::
  "(example \<Rightarrow> py_error + example) \<Rightarrow> bool \<Rightarrow> bool \<Rightarrow> dataset \<Rightarrow> py_error + dataset" where
  "format_dataset prepare_dialogue custom pref raw_dataset =
     (if custom then
        (if pref then
           dataset_map map_conversations_testsets
             [''prompt'', ''chosen'', ''rejected'', ''subset'', ''subsubset''] raw_dataset
         else
           dataset_map map_conversations
             [''prompt'', ''chosen'', ''rejected'', ''subset''] raw_dataset)
      else
        dataset_map prepare_dialogue [''prompt'', ''chosen'', ''rejected''] raw_dataset)"

subsection \<open>Pad-token correction (main, lines 276--278)\<close>

record pipe_state =
  tokenizer_pad_token_id :: "int option"
  tokenizer_eos_token_id :: "int option"
  model_config_pad_token_id :: "int option"

definition set_pad_token :: "pipe_state \<Rightarrow> pipe_state" where
  "set_pad_token s =
     (if tokenizer_pad_token_id s = None then
        s\<lparr>model_config_pad_token_id := tokenizer_eos_token_id s,
          tokenizer_pad_token_id := tokenizer_eos_token_id s\<rparr>
      else s)"

subsection \<open>The scoring pipeline\<close>

text \<open>
  The pipeline object is built by transformers or by an adapter class outside this file.
  It is a parameter: what it answers to a call with one batch of texts (a list of
  \<^verbatim>\<open>{label, score}\<close> dictionaries, or a tensor of raw scores) and what it answers to a call
  with the chosen and the rejected batch together (a tensor of booleans).  A call may
  raise.  Every call the script makes is recorded, in order, next to the verdicts.
\<close>

datatype 's pipe_output =
    Dicts "(string \<times> 's) list"
  | Tensor "'s list"

record 's reward_pipe =
  score_call :: "pyval \<Rightarrow> py_error + 's pipe_output"
  pair_call :: "pyval \<Rightarrow> pyval \<Rightarrow> py_error + bool list"

datatype call =
    ScoreCall pyval
  | PairCall pyval pyval

text \<open>\<^verbatim>\<open>[1 if chosen > rejected else 0 for chosen, rejected in zip(score_chosen, score_rejected)]\<close>\<close>

definition compare_scores :: "'s::ord list \<Rightarrow> 's list \<Rightarrow> int list" where
  "compare_scores score_chosen score_rejected =
     map (\<lambda>(chosen, rejected). if chosen > rejected then 1 else 0)
       (zip score_chosen score_rejected)"

subsection \<open>Inference 1/2: the built-in pipeline (main, lines 285--299)\<close>

text \<open>\<^verbatim>\<open>[result["score"] for result in results]\<close>: over a list of dictionaries it reads
  the scores; over an empty tensor it reads nothing; an element of a tensor cannot be
  indexed by \<^verbatim>\<open>"score"\<close>.\<close>

fun scores_of :: "'s pipe_output \<Rightarrow> py_error + 's list" where
  "scores_of (Dicts ds) = Inr (map snd ds)"
| "scores_of (Tensor []) = Inr []"
| "scores_of (Tensor (x # xs)) = Inl IndexError"

definition run_uniform ::
  "('s::ord) reward_pipe \<Rightarrow> dataset \<Rightarrow> py_error + int list \<times> call list" where
  "run_uniform reward_pipe ds =
     py_bind (dataset_column ds ''text_rejected'') (\<lambda>text_rejected.
     py_bind (score_call reward_pipe (PList text_rejected)) (\<lambda>results_rej.
     py_bind (dataset_column ds ''text_chosen'') (\<lambda>text_chosen.
     py_bind (score_call reward_pipe (PList text_chosen)) (\<lambda>results_cho.
     py_bind (scores_of results_cho) (\<lambda>score_chosen.
     py_bind (scores_of results_rej) (\<lambda>score_rejected.
     Inr (compare_scores score_chosen score_rejected,
          [ScoreCall (PList text_rejected), ScoreCall (PList text_chosen)])))))))"

subsection \<open>Inference 2/2: the manual batch loop (main, lines 304--361)\<close>

text \<open>The batches of a \<^verbatim>\<open>DataLoader\<close> with \<^verbatim>\<open>shuffle=False\<close> and \<^verbatim>\<open>drop_last=False\<close>:
  consecutive slices of \<open>n\<close> rows, the last one possibly shorter.\<close>

function batched :: "nat \<Rightarrow> 'a list \<Rightarrow> 'a list list" where
  "batched n xs = (if n = 0 \<or> xs = [] then [] else take n xs # batched n (drop n xs))"
  by pat_completeness auto
termination
  by (relation "measure (\<lambda>(n, xs). length xs)") auto

declare batched.simps [simp del]

text \<open>
  A collated batch is either the list of rows as it is, or what torch's
  \<^verbatim>\<open>default_collate\<close> makes of the rows: one dictionary from column names to the collated
  column.  \<^verbatim>\<open>default_collate\<close> is a parameter.
\<close>

datatype batch =
    RowBatch "example list"
  | ColBatch "(string \<times> pyval) list"

text \<open>\<^verbatim>\<open>v[0]\<close> on a cell value.\<close>

fun first_item :: "pyval \<Rightarrow> py_error + pyval" where
  "first_item (PList []) = Inl IndexError"
| "first_item (PList (x # xs)) = Inr x"
| "first_item (PStr []) = Inl IndexError"
| "first_item (PStr (c # cs)) = Inr (PStr [c])"
| "first_item (PDict d) = Inl KeyError"
| "first_item PNone = Inl TypeError"
| "first_item (PInt n) = Inl TypeError"
| "first_item (PFloat f) = Inl TypeError"

fun is_dict :: "pyval \<Rightarrow> bool" where
  "is_dict (PDict d) = True"
| "is_dict PNone = False"
| "is_dict (PInt n) = False"
| "is_dict (PFloat f) = False"
| "is_dict (PStr s) = False"
| "is_dict (PList xs) = False"

definition custom_collate_fn ::
  "(example list \<Rightarrow> py_error + (string \<times> pyval) list) \<Rightarrow> example list \<Rightarrow> py_error + batch" where
  "custom_collate_fn default_collate b =
     (case b of
        [] \<Rightarrow> Inl IndexError
      | ex # _ \<Rightarrow>
          py_bind (getitem ex ''text_chosen'') (\<lambda>tc.
          py_bind (first_item tc) (\<lambda>x.
          if is_dict x then Inr (RowBatch b)
          else py_bind (default_collate b) (\<lambda>d. Inr (ColBatch d)))))"

text \<open>\<^verbatim>\<open>[b[name] for b in batch]\<close>: over a list of rows it reads the column; over a
  collated dictionary it iterates the keys, which are strings and cannot be indexed by a
  name.\<close>

fun batch_texts :: "batch \<Rightarrow> string \<Rightarrow> py_error + pyval list" where
  "batch_texts (RowBatch rs) name = map_err (\<lambda>b. getitem b name) rs"
| "batch_texts (ColBatch []) name = Inr []"
| "batch_texts (ColBatch (kv # d)) name = Inl TypeError"

text \<open>\<^verbatim>\<open>batch[name]\<close>: a list of rows cannot be indexed by a name.\<close>

fun batch_getitem :: "batch \<Rightarrow> string \<Rightarrow> py_error + pyval" where
  "batch_getitem (RowBatch rs) name = Inl TypeError"
| "batch_getitem (ColBatch d) name = getitem d name"

definition pairwise_native :: "string \<Rightarrow> string \<Rightarrow> bool" where
  "pairwise_native m t =
     (py_in ''PairRM'' m \<or> py_in ''PairRM'' t \<or> py_in ''SHP'' m \<or> py_in ''SHP'' t)"

text \<open>Lines 350--356: the shape of the first result decides how the scores of both
  results are read.\<close>

fun extract_scores :: "'s pipe_output \<Rightarrow> 's pipe_output \<Rightarrow> py_error + 's list \<times> 's list" where
  "extract_scores (Dicts []) rewards_rejected = Inl IndexError"
| "extract_scores (Dicts (d # ds)) (Dicts es) = Inr (map snd (d # ds), map snd es)"
| "extract_scores (Dicts (d # ds)) (Tensor []) = Inr (map snd (d # ds), [])"
| "extract_scores (Dicts (d # ds)) (Tensor (y # ys)) = Inl IndexError"
| "extract_scores (Tensor []) rewards_rejected = Inl IndexError"
| "extract_scores (Tensor (x # xs)) (Tensor ys) = Inr (x # xs, ys)"
| "extract_scores (Tensor (x # xs)) (Dicts es) = Inl AttributeError"

text \<open>One iteration of the loop: the verdicts it appends and the pipeline calls it makes.\<close>


definition batch_step ::
  "('s::ord) reward_pipe \<Rightarrow> bool \<Rightarrow> batch \<Rightarrow> py_error + int list \<times> call list" where
  "batch_step reward_pipe native batch =
     (if native then
        py_bind (batch_texts batch ''text_rejected'') (\<lambda>text_rejected.
        py_bind (batch_texts batch ''text_chosen'') (\<lambda>text_chosen.
        py_bind (pair_call reward_pipe (PList text_chosen) (PList text_rejected))
          (\<lambda>results_sub.
        Inr (map (\<lambda>result. if result then 1 else 0) results_sub,
             [PairCall (PList text_chosen) (PList text_rejected)]))))
      else
        py_bind (batch_getitem batch ''text_chosen'') (\<lambda>text_chosen.
        py_bind (score_call reward_pipe text_chosen) (\<lambda>rewards_chosen.
        py_bind (batch_getitem batch ''text_rejected'') (\<lambda>text_rejected.
        py_bind (score_call reward_pipe text_rejected) (\<lambda>rewards_rejected.
        py_bind (extract_scores rewards_chosen rewards_rejected)
          (\<lambda>(score_chosen, score_rejected).
        Inr (compare_scores score_chosen score_rejected,
             [ScoreCall text_chosen, ScoreCall text_rejected])))))))"

text \<open>The loop over the batches.  The prepared dataloader collates one batch ahead of the
  loop body; here each batch is collated when the loop reaches it, which can only change
  which error a failing run ends in.\<close>

fun batch_loop ::
  "('s::ord) reward_pipe \<Rightarrow> (example list \<Rightarrow> py_error + (string \<times> pyval) list) \<Rightarrow> bool \<Rightarrow>
   example list list \<Rightarrow> int list \<Rightarrow> call list \<Rightarrow> py_error + int list \<times> call list" where
  "batch_loop reward_pipe default_collate native [] results calls = Inr (results, calls)"
| "batch_loop reward_pipe default_collate native (b # bs) results calls =
     (case custom_collate_fn default_collate b of
        Inl e \<Rightarrow> Inl e
      | Inr batch \<Rightarrow>
          (case batch_step reward_pipe native batch of
             Inl e \<Rightarrow> Inl e
           | Inr (vs, cs) \<Rightarrow>
               batch_loop reward_pipe default_collate native bs (results @ vs) (calls @ cs)))"

text \<open>The \<^verbatim>\<open>DataLoader\<close> refuses a batch size that is not positive.  Over an empty
  dataset the prepared dataloader yields one placeholder that is no batch, and the loop
  body cannot read it.\<close>

definition run_manual ::
  "('s::ord) reward_pipe \<Rightarrow> (example list \<Rightarrow> py_error + (string \<times> pyval) list) \<Rightarrow>
   string \<Rightarrow> string \<Rightarrow> int \<Rightarrow> dataset \<Rightarrow> py_error + int list \<times> call list" where
  "run_manual reward_pipe default_collate m t bs ds =
     (if bs \<le> 0 then Inl ValueError
      else if rows ds = [] then Inl TypeError
      else batch_loop reward_pipe default_collate (pairwise_native m t)
             (batched (nat bs) (rows ds)) [] [])"

definition run_inference ::
  "args \<Rightarrow> pipeline_builder \<Rightarrow> ('s::ord) reward_pipe \<Rightarrow>
   (example list \<Rightarrow> py_error + (string \<times> pyval) list) \<Rightarrow> dataset \<Rightarrow>
   py_error + int list \<times> call list" where
  "run_inference a pb reward_pipe default_collate ds =
     (case inference_mode (direct_load a) pb of
        UniformBatched \<Rightarrow> run_uniform reward_pipe ds
      | ManualBatchLoop \<Rightarrow>
          run_manual reward_pipe default_collate (model a) (chat_template a) (batch_size a) ds)"

subsection \<open>The report (main, lines 367--379)\<close>

text \<open>\<^verbatim>\<open>add_column(name, column)\<close>: the name must be new and the column as long as the
  dataset.\<close>

definition add_column :: "string \<Rightarrow> pyval list \<Rightarrow> dataset \<Rightarrow> py_error + dataset" where
  "add_column name col ds =
     (if name \<in> set (column_names ds) \<or> length col \<noteq> length (rows ds) then Inl ValueError
      else Inr \<lparr>column_names = column_names ds @ [name],
                rows = map (\<lambda>(r, v). setitem name v r) (zip (rows ds) col)\<rparr>)"

text \<open>\<^verbatim>\<open>unique(name)\<close>: the distinct values of a column, each at its first occurrence.
  Arrow counts every \<^verbatim>\<open>nan\<close> as the same value; a column that does not exist is refused.\<close>

fun unique_vals :: "'a list \<Rightarrow> 'a list" where
  "unique_vals [] = []"
| "unique_vals (x # xs) = x # unique_vals (filter (\<lambda>y. y \<noteq> x) xs)"

definition dataset_unique :: "dataset \<Rightarrow> string \<Rightarrow> py_error + pyval list" where
  "dataset_unique ds name =
     (if name \<in> set (column_names ds) then
        py_bind (dataset_column ds name) (\<lambda>col. Inr (unique_vals col))
      else Inl ValueError)"

text \<open>\<^verbatim>\<open>filter(function)\<close>: the rows on which the function answers true, in order.\<close>

definition dataset_filter :: "(example \<Rightarrow> py_error + bool) \<Rightarrow> dataset \<Rightarrow> py_error + dataset" where
  "dataset_filter keep ds =
     py_bind (map_err keep (rows ds)) (\<lambda>flags.
       Inr (ds\<lparr>rows := map fst (filter snd (zip (rows ds) flags))\<rparr>))"

text \<open>Python's \<^verbatim>\<open>+\<close> on numbers: two integers give an integer, a float on either side
  gives a float, and \<^verbatim>\<open>nan\<close> stays \<^verbatim>\<open>nan\<close>.  A number cannot be added to anything else.\<close>

fun float_add :: "py_float \<Rightarrow> py_float \<Rightarrow> py_float" where
  "float_add (Finite x) (Finite y) = Finite (x + y)"
| "float_add Nan g = Nan"
| "float_add (Finite x) Nan = Nan"

fun py_add_num :: "pyval \<Rightarrow> pyval \<Rightarrow> py_error + pyval" where
  "py_add_num (PInt a) (PInt b) = Inr (PInt (a + b))"
| "py_add_num (PInt a) (PFloat g) = Inr (PFloat (float_add (Finite (real_of_int a)) g))"
| "py_add_num (PFloat f) (PInt b) = Inr (PFloat (float_add f (Finite (real_of_int b))))"
| "py_add_num (PFloat f) (PFloat g) = Inr (PFloat (float_add f g))"
| "py_add_num v w = Inl TypeError"

text \<open>\<^verbatim>\<open>sum(column)\<close>: the cells are added one after the other, starting from \<open>0\<close>.\<close>

fun py_sum_from :: "pyval \<Rightarrow> pyval list \<Rightarrow> py_error + pyval" where
  "py_sum_from acc [] = Inr acc"
| "py_sum_from acc (x # xs) =
     (case py_add_num acc x of Inl e \<Rightarrow> Inl e | Inr acc' \<Rightarrow> py_sum_from acc' xs)"

definition py_sum :: "pyval list \<Rightarrow> py_error + pyval" where
  "py_sum xs = py_sum_from (PInt 0) xs"

text \<open>
  \<^verbatim>\<open>num_correct / num_total\<close> is Python's true division of a number by an integer.  The
  model takes the quotient in the reals, of which the script's float is the nearest double.
\<close>

fun py_truediv :: "pyval \<Rightarrow> int \<Rightarrow> py_error + py_float" where
  "py_truediv (PInt a) b =
     (if b = 0 then Inl ZeroDivisionError else Inr (Finite (real_of_int a / real_of_int b)))"
| "py_truediv (PFloat f) b =
     (if b = 0 then Inl ZeroDivisionError
      else Inr (case f of Nan \<Rightarrow> Nan | Finite x \<Rightarrow> Finite (x / real_of_int b)))"
| "py_truediv v b = Inl TypeError"

text \<open>The two counts of one subset (lines 375--377).\<close>

definition subset_counts :: "dataset \<Rightarrow> pyval \<Rightarrow> py_error + pyval \<times> int" where
  "subset_counts out_dataset label =
     py_bind (dataset_filter
                (\<lambda>example. py_bind (getitem example ''subset'') (\<lambda>s. Inr (py_eq s label)))
                out_dataset) (\<lambda>subset_dataset.
     py_bind (dataset_column subset_dataset ''results'') (\<lambda>col.
     py_bind (py_sum col) (\<lambda>num_correct.
     py_bind (dataset_column subset_dataset ''results'') (\<lambda>col'.
     Inr (num_correct, int (length col'))))))"

text \<open>The results dictionary: the model and the template under their names, then one
  accuracy under each subset label.  A list or a dictionary cannot be a key.\<close>

datatype report_val =
    RStr string
  | RNum py_float

type_synonym report = "(pyval \<times> report_val) list"

fun hashable :: "pyval \<Rightarrow> bool" where
  "hashable PNone = True"
| "hashable (PInt n) = True"
| "hashable (PFloat f) = True"
| "hashable (PStr s) = True"
| "hashable (PList xs) = False"
| "hashable (PDict d) = False"

definition report_set :: "pyval \<Rightarrow> report_val \<Rightarrow> report \<Rightarrow> py_error + report" where
  "report_set k v r = (if hashable k then Inr (setitem k v r) else Inl TypeError)"

fun report_loop :: "dataset \<Rightarrow> pyval list \<Rightarrow> report \<Rightarrow> py_error + report" where
  "report_loop out_dataset [] results = Inr results"
| "report_loop out_dataset (label # rest) results =
     (case subset_counts out_dataset label of
        Inl e \<Rightarrow> Inl e
      | Inr (num_correct, num_total) \<Rightarrow>
          (case py_truediv num_correct num_total of
             Inl e \<Rightarrow> Inl e
           | Inr accuracy \<Rightarrow>
               (case report_set label (RNum accuracy) results of
                  Inl e \<Rightarrow> Inl e
                | Inr results' \<Rightarrow> report_loop out_dataset rest results')))"

definition process_results :: "string \<Rightarrow> string \<Rightarrow> dataset \<Rightarrow> int list \<Rightarrow> py_error + report" where
  "process_results m t raw_dataset results =
     py_bind (add_column ''results'' (map PInt results) raw_dataset) (\<lambda>out_dataset.
     let report0 = setitem (PStr ''chat_template'') (RStr t) (setitem (PStr ''model'') (RStr m) [])
     in
     py_bind (dataset_unique raw_dataset ''subset'') (\<lambda>present_subsets.
     report_loop out_dataset present_subsets report0))"

subsection \<open>What the claims observe\<close>

text \<open>
  The score lists the comparison of lines 299 and 358--361 is applied to: in the built-in
  path the two lists read off the two pipeline results (lines 291--296), in the manual loop
  the two lists read off the results of one batch (lines 344--356).
\<close>

definition uniform_scores :: "'s reward_pipe \<Rightarrow> dataset \<Rightarrow> py_error + 's list \<times> 's list" where
  "uniform_scores reward_pipe ds =
     py_bind (dataset_column ds ''text_rejected'') (\<lambda>text_rejected.
     py_bind (score_call reward_pipe (PList text_rejected)) (\<lambda>results_rej.
     py_bind (dataset_column ds ''text_chosen'') (\<lambda>text_chosen.
     py_bind (score_call reward_pipe (PList text_chosen)) (\<lambda>results_cho.
     py_bind (scores_of results_cho) (\<lambda>score_chosen.
     py_bind (scores_of results_rej) (\<lambda>score_rejected.
     Inr (score_chosen, score_rejected)))))))"

definition batch_scores :: "'s reward_pipe \<Rightarrow> batch \<Rightarrow> py_error + 's list \<times> 's list" where
  "batch_scores reward_pipe batch =
     py_bind (batch_getitem batch ''text_chosen'') (\<lambda>text_chosen.
     py_bind (score_call reward_pipe text_chosen) (\<lambda>rewards_chosen.
     py_bind (batch_getitem batch ''text_rejected'') (\<lambda>text_rejected.
     py_bind (score_call reward_pipe text_rejected) (\<lambda>rewards_rejected.
     extract_scores rewards_chosen rewards_rejected))))"

text \<open>
  The verdict list \<open>vs\<close> pairs the two score lists position by position: a verdict is
  \<open>1\<close> exactly when the chosen score is strictly greater, \<open>0\<close> otherwise, and \<open>0\<close> on a
  tie.
\<close>

definition verdicts_of_scores :: "'s::ord list \<Rightarrow> 's list \<Rightarrow> int list \<Rightarrow> bool" where
  "verdicts_of_scores sc sr vs \<longleftrightarrow>
     length vs = min (length sc) (length sr) \<and>
     (\<forall>i < length vs.
        (vs ! i = 1 \<longleftrightarrow> sc ! i > sr ! i) \<and>
        (vs ! i = 0 \<longleftrightarrow> \<not> sc ! i > sr ! i) \<and>
        (sc ! i = sr ! i \<longrightarrow> vs ! i = 0))"

text \<open>What one iteration of the loop does with a pairwise-native pipeline: the two text
  batches it passes in one call, and the judgments that call returns.\<close>

datatype native_step =
  NativeStep (texts_chosen: "pyval list") (texts_rejected: "pyval list") (judgments: "bool list")

text \<open>The function and the column list that the formatting step hands to \<^verbatim>\<open>Dataset.map\<close>
  in each of its three branches.\<close>

definition formatter ::
  "(example \<Rightarrow> py_error + example) \<Rightarrow> bool \<Rightarrow> bool \<Rightarrow> example \<Rightarrow> py_error + example" where
  "formatter prepare_dialogue custom pref =
     (if custom then (if pref then map_conversations_testsets else map_conversations)
      else prepare_dialogue)"

definition removed_columns :: "bool \<Rightarrow> bool \<Rightarrow> string list" where
  "removed_columns custom pref =
     (if custom then
        (if pref then [''prompt'', ''chosen'', ''rejected'', ''subset'', ''subsubset'']
         else [''prompt'', ''chosen'', ''rejected'', ''subset''])
      else [''prompt'', ''chosen'', ''rejected''])"

text \<open>The verdicts of the records that carry the subset label \<open>l\<close>, in record order:
  the group the report sums and counts for \<open>l\<close>.\<close>

definition group_verdicts :: "pyval list \<Rightarrow> int list \<Rightarrow> pyval \<Rightarrow> int list" where
  "group_verdicts labels verdicts l =
     map snd (filter (\<lambda>p. py_eq (fst p) l) (zip labels verdicts))"

subsection \<open>Sample inputs\<close>

text \<open>
  Small concrete inputs on which the theorems below are instantiated: pipelines that score
  a text by its length (as a list of dictionaries, and as a tensor), a pairwise-native
  pipeline that answers \<^verbatim>\<open>[True, False, True]\<close>, a collation of string columns, and two
  formatted datasets of three rows.
\<close>

definition sample_args :: args where
  "sample_args =
     \<lparr>model = ''openbmb/UltraRM-13b'', tokenizer = None, chat_template = ''tulu'',
      direct_load = True, do_not_save = True, batch_size = 2, pref_sets = False\<rparr>"

definition sample_score :: "pyval \<Rightarrow> real" where
  "sample_score v = (case v of PStr s \<Rightarrow> real (length s) | _ \<Rightarrow> 0)"

definition sample_pipeline :: "real reward_pipe" where
  "sample_pipeline =
     \<lparr>score_call = (\<lambda>texts. case texts of
          PList xs \<Rightarrow> Inr (Dicts (map (\<lambda>x. (''LABEL_0'', sample_score x)) xs))
        | _ \<Rightarrow> Inl TypeError),
      pair_call = (\<lambda>chosen rejected. Inl TypeError)\<rparr>"

definition sample_custom_pipeline :: "real reward_pipe" where
  "sample_custom_pipeline =
     \<lparr>score_call = (\<lambda>texts. case texts of
          PList xs \<Rightarrow> Inr (Tensor (map sample_score xs))
        | _ \<Rightarrow> Inl TypeError),
      pair_call = (\<lambda>chosen rejected. Inl TypeError)\<rparr>"

definition sample_native_pipeline :: "real reward_pipe" where
  "sample_native_pipeline =
     \<lparr>score_call = (\<lambda>texts. Inl TypeError),
      pair_call = (\<lambda>chosen rejected. Inr [True, False, True])\<rparr>"

definition sample_default_collate :: "example list \<Rightarrow> py_error + (string \<times> pyval) list" where
  "sample_default_collate b =
     py_bind (map_err (\<lambda>r. getitem r ''text_chosen'') b) (\<lambda>tc.
     py_bind (map_err (\<lambda>r. getitem r ''text_rejected'') b) (\<lambda>tr.
     Inr [(''text_chosen'', PList tc), (''text_rejected'', PList tr)]))"

definition sample_formatted :: dataset where
  "sample_formatted =
     \<lparr>column_names = [''text_chosen'', ''text_rejected''],
      rows = [[(''text_chosen'', PStr ''aaa''), (''text_rejected'', PStr ''bb'')],
              [(''text_chosen'', PStr ''a''), (''text_rejected'', PStr ''bb'')],
              [(''text_chosen'', PStr ''cc''), (''text_rejected'', PStr ''dd'')]]\<rparr>"

definition sample_turns :: dataset where
  "sample_turns =
     \<lparr>column_names = [''text_chosen'', ''text_rejected''],
      rows = [[(''text_chosen'', make_conversation (PStr ''p1'') (PStr ''c1'')),
               (''text_rejected'', make_conversation (PStr ''p1'') (PStr ''r1''))],
              [(''text_chosen'', make_conversation (PStr ''p2'') (PStr ''c2'')),
               (''text_rejected'', make_conversation (PStr ''p2'') (PStr ''r2''))],
              [(''text_chosen'', make_conversation (PStr ''p3'') (PStr ''c3'')),
               (''text_rejected'', make_conversation (PStr ''p3'') (PStr ''r3''))]]\<rparr>"

definition sample_native_calls :: "call list" where
  "sample_native_calls =
     [PairCall
        (PList [make_conversation (PStr ''p1'') (PStr ''c1''),
                make_conversation (PStr ''p2'') (PStr ''c2''),
                make_conversation (PStr ''p3'') (PStr ''c3'')])
        (PList [make_conversation (PStr ''p1'') (PStr ''r1''),
                make_conversation (PStr ''p2'') (PStr ''r2''),
                make_conversation (PStr ''p3'') (PStr ''r3'')])]"

text \<open>Raw records: one of the benchmark (a string prompt), one of the preference test
  sets (a prompt that is a list of turns), and a raw dataset of two records with what the
  structured-turn formatting makes of it.\<close>

definition sample_example :: example where
  "sample_example =
     [(''prompt'', PStr ''P''), (''chosen'', PStr ''C''), (''rejected'', PStr ''R''),
      (''subset'', PStr ''s1'')]"

definition sample_testset_example :: example where
  "sample_testset_example =
     [(''prompt'', PList [PDict [(''role'', PStr ''user''), (''content'', PStr ''P'')]]),
      (''chosen'', PStr ''C''), (''rejected'', PStr ''R''),
      (''subset'', PStr ''anthropic''), (''subsubset'', PStr ''s1'')]"

definition sample_raw :: dataset where
  "sample_raw =
     \<lparr>column_names = [''prompt'', ''chosen'', ''rejected'', ''subset''],
      rows = [sample_example,
              [(''prompt'', PStr ''Q''), (''chosen'', PStr ''D''), (''rejected'', PStr ''S''),
               (''subset'', PStr ''s1'')]]\<rparr>"

definition sample_raw_formatted :: dataset where
  "sample_raw_formatted =
     \<lparr>column_names = [''text_chosen'', ''text_rejected''],
      rows = [[(''text_chosen'', make_conversation (PStr ''P'') (PStr ''C'')),
               (''text_rejected'', make_conversation (PStr ''P'') (PStr ''R''))],
              [(''text_chosen'', make_conversation (PStr ''Q'') (PStr ''D'')),
               (''text_rejected'', make_conversation (PStr ''Q'') (PStr ''S''))]]\<rparr>"

text \<open>A stand-in for the template formatter (it joins prompt and response with a blank
  and updates the record it is given), what it makes of the raw dataset, and a
  preference-test-set dataset of one record with its structured-turn formatting.\<close>

definition sample_prepare_dialogue :: "example \<Rightarrow> py_error + example" where
  "sample_prepare_dialogue ex =
     py_bind (getitem ex ''prompt'') (\<lambda>p.
     py_bind (getitem ex ''chosen'') (\<lambda>c.
     py_bind (getitem ex ''rejected'') (\<lambda>r.
     (case (p, c, r) of
        (PStr ps, PStr cs, PStr rs) \<Rightarrow>
          Inr (setitem ''text_rejected'' (PStr (ps @ '' '' @ rs))
                 (setitem ''text_chosen'' (PStr (ps @ '' '' @ cs)) ex))
      | _ \<Rightarrow> Inl TypeError))))"

definition sample_raw_rendered :: dataset where
  "sample_raw_rendered =
     \<lparr>column_names = [''subset'', ''text_chosen'', ''text_rejected''],
      rows = [[(''subset'', PStr ''s1''), (''text_chosen'', PStr ''P C''),
               (''text_rejected'', PStr ''P R'')],
              [(''subset'', PStr ''s1''), (''text_chosen'', PStr ''Q D''),
               (''text_rejected'', PStr ''Q S'')]]\<rparr>"

definition sample_testset_raw :: dataset where
  "sample_testset_raw =
     \<lparr>column_names = [''prompt'', ''chosen'', ''rejected'', ''subset'', ''subsubset''],
      rows = [sample_testset_example]\<rparr>"

definition sample_testset_formatted :: dataset where
  "sample_testset_formatted =
     \<lparr>column_names = [''text_chosen'', ''text_rejected''],
      rows = [[(''text_chosen'',
                PList [PDict [(''role'', PStr ''user''), (''content'', PStr ''P'')],
                       PDict [(''role'', PStr ''assistant''), (''content'', PStr ''C'')]]),
               (''text_rejected'',
                PList [PDict [(''role'', PStr ''user''), (''content'', PStr ''P'')],
                       PDict [(''role'', PStr ''assistant''), (''content'', PStr ''R'')]])]]\<rparr>"

text \<open>A raw dataset of five records in two subsets, its subset column, and the report
  of a run whose verdicts are \<open>[1, 0, 1, 1, 1]\<close>.\<close>

definition sample_benchmark :: dataset where
  "sample_benchmark =
     \<lparr>column_names = [''prompt'', ''subset''],
      rows = [[(''prompt'', PStr ''p1''), (''subset'', PStr ''alpacaeval-easy'')],
              [(''prompt'', PStr ''p2''), (''subset'', PStr ''alpacaeval-easy'')],
              [(''prompt'', PStr ''p3''), (''subset'', PStr ''mt-bench-easy'')],
              [(''prompt'', PStr ''p4''), (''subset'', PStr ''alpacaeval-easy'')],
              [(''prompt'', PStr ''p5''), (''subset'', PStr ''alpacaeval-easy'')]]\<rparr>"

definition sample_labels :: "pyval list" where
  "sample_labels =
     [PStr ''alpacaeval-easy'', PStr ''alpacaeval-easy'', PStr ''mt-bench-easy'',
      PStr ''alpacaeval-easy'', PStr ''alpacaeval-easy'']"

definition sample_report :: report where
  "sample_report =
     [(PStr ''model'', RStr ''natolambert/gpt2-dummy-rm''),
      (PStr ''chat_template'', RStr ''tulu''),
      (PStr ''alpacaeval-easy'', RNum (Finite (3 / 4))),
      (PStr ''mt-bench-easy'', RNum (Finite 1))]"

text \<open>A raw dataset of one record whose subset label is \<^verbatim>\<open>nan\<close>.\<close>

definition sample_nan_benchmark :: dataset where
  "sample_nan_benchmark =
     \<lparr>column_names = [''prompt'', ''subset''],
      rows = [[(''prompt'', PStr ''p1''), (''subset'', PFloat Nan)]]\<rparr>"

section \<open>Properties\<close>

lemma py_in_iff_sublist: "py_in needle hay \<longleftrightarrow> sublist needle hay"
  by (induction hay) (auto simp: sublist_Cons_right)

lemma py_in_iff: "py_in needle hay \<longleftrightarrow> (\<exists>ps ss. hay = ps @ needle @ ss)"
  by (simp add: py_in_iff_sublist sublist_def)

subsection \<open>Adapter selection\<close>

text \<open>
  Claim C2, as the code has it: the quantized flag is switched off exactly when the
  Starling branch of the chain is the one taken, that is, when \<^verbatim>\<open>"Starling"\<close> occurs in the
  model identifier or in the chat-template name and \<^verbatim>\<open>"oasst"\<close> occurs in neither; in every
  other case the flag keeps its initial value \<open>True\<close>.
\<close>

theorem C2_quantized_iff_starling_selected:
  "(quantized (select_adapter m t) \<longleftrightarrow>
      \<not> ((py_in ''Starling'' m \<or> py_in ''Starling'' t) \<and>
         \<not> (py_in ''oasst'' m \<or> py_in ''oasst'' t))) \<and>
   (quantized (select_adapter m t) \<longleftrightarrow>
      pipeline_builder (select_adapter m t) \<noteq> StarlingPipeline)"
  by (simp add: select_adapter_def)

theorem C2_witness:
  "(quantized (select_adapter ''berkeley-nest/Starling-RM-7B-alpha'' ''tulu'') \<longleftrightarrow>
      \<not> ((py_in ''Starling'' ''berkeley-nest/Starling-RM-7B-alpha'' \<or> py_in ''Starling'' ''tulu'') \<and>
         \<not> (py_in ''oasst'' ''berkeley-nest/Starling-RM-7B-alpha'' \<or> py_in ''oasst'' ''tulu''))) \<and>
   \<not> quantized (select_adapter ''berkeley-nest/Starling-RM-7B-alpha'' ''tulu'')"
  using C2_quantized_iff_starling_selected
    [of "''berkeley-nest/Starling-RM-7B-alpha''" "''tulu''"]
  by (simp add: select_adapter_def)

text \<open>
  The claim as worded looks at the model identifier alone.  A model identifier with
  \<^verbatim>\<open>"Starling"\<close> in it keeps the quantized flag when the template name contains
  \<^verbatim>\<open>"oasst"\<close> (the first branch wins), and a model identifier without \<^verbatim>\<open>"Starling"\<close> loses it
  when the template name contains \<^verbatim>\<open>"Starling"\<close>.
\<close>

theorem C2_counterexample:
  "(py_in ''Starling'' ''berkeley-nest/Starling-RM-7B-alpha'' \<and>
    quantized (select_adapter ''berkeley-nest/Starling-RM-7B-alpha'' ''oasst_pythia'')) \<and>
   (\<not> py_in ''Starling'' ''natolambert/gpt2-dummy-rm'' \<and>
    \<not> quantized (select_adapter ''natolambert/gpt2-dummy-rm'' ''Starling''))"
  by (simp add: select_adapter_def)

text \<open>
  Claim C3, as the code has it: an input with \<^verbatim>\<open>"PairRM"\<close> in the model identifier (or the
  template name) gets the custom-dialogue flag when none of the three earlier keys
  \<^verbatim>\<open>"oasst"\<close>, \<^verbatim>\<open>"Starling"\<close>, \<^verbatim>\<open>"openbmb"\<close> occurs in either string; the flag is set exactly
  when the PairRM or the SHP pipeline is the one selected; and the chain of the script is
  the first-match scan of the ordered registry oasst, Starling, openbmb, PairRM, SHP with
  the generic adapter as the fallback, so every input selects one adapter.
\<close>

theorem C3_first_match:
  "((py_in ''PairRM'' m \<or> py_in ''PairRM'' t) \<and>
      \<not> (py_in ''oasst'' m \<or> py_in ''oasst'' t) \<and>
      \<not> (py_in ''Starling'' m \<or> py_in ''Starling'' t) \<and>
      \<not> (py_in ''openbmb'' m \<or> py_in ''openbmb'' t)
      \<longrightarrow> custom_dialogue (select_adapter m t)) \<and>
   (custom_dialogue (select_adapter m t) \<longleftrightarrow>
      pipeline_builder (select_adapter m t) = PairRMPipeline \<or>
      pipeline_builder (select_adapter m t) = SHPPipeline) \<and>
   select_adapter m t = spec_first_match spec_registry m t"
  by (simp add: select_adapter_def spec_registry_def generic_adapter_def)

theorem C3_witness:
  "(py_in ''PairRM'' ''llm-blender/PairRM'' \<or> py_in ''PairRM'' ''tulu'') \<and>
   \<not> (py_in ''oasst'' ''llm-blender/PairRM'' \<or> py_in ''oasst'' ''tulu'') \<and>
   \<not> (py_in ''Starling'' ''llm-blender/PairRM'' \<or> py_in ''Starling'' ''tulu'') \<and>
   \<not> (py_in ''openbmb'' ''llm-blender/PairRM'' \<or> py_in ''openbmb'' ''tulu'') \<and>
   custom_dialogue (select_adapter ''llm-blender/PairRM'' ''tulu'') \<and>
   pipeline_builder (select_adapter ''llm-blender/PairRM'' ''tulu'') = PairRMPipeline \<and>
   select_adapter ''llm-blender/PairRM'' ''tulu'' =
     spec_first_match spec_registry ''llm-blender/PairRM'' ''tulu''"
  using C3_first_match [of "''llm-blender/PairRM''" "''tulu''"]
  by (simp add: select_adapter_def spec_registry_def generic_adapter_def)

text \<open>
  The first part of the claim as worded fails where an earlier key matches: with the
  template \<^verbatim>\<open>oasst_pythia\<close> the model \<^verbatim>\<open>llm-blender/PairRM\<close> selects the oasst branch, which
  leaves the custom-dialogue flag off.
\<close>

theorem C3_counterexample:
  "py_in ''PairRM'' ''llm-blender/PairRM'' \<and>
   \<not> custom_dialogue (select_adapter ''llm-blender/PairRM'' ''oasst_pythia'')"
  by (simp add: select_adapter_def)

subsection \<open>Pad-token correction\<close>

text \<open>
  Claim C8: when the tokenizer has no pad token id, the correction sets it (and the model
  configuration's) to the end-of-sequence id; when it has one, nothing changes; applying
  the correction twice is the same as applying it once.
\<close>

theorem C8_pad_token:
  "(tokenizer_pad_token_id s = None \<longrightarrow>
      tokenizer_pad_token_id (set_pad_token s) = tokenizer_eos_token_id s \<and>
      model_config_pad_token_id (set_pad_token s) = tokenizer_eos_token_id s \<and>
      tokenizer_eos_token_id (set_pad_token s) = tokenizer_eos_token_id s) \<and>
   (tokenizer_pad_token_id s \<noteq> None \<longrightarrow> set_pad_token s = s) \<and>
   set_pad_token (set_pad_token s) = set_pad_token s"
  by (simp add: set_pad_token_def)

theorem C8_witness:
  "tokenizer_pad_token_id
     \<lparr>tokenizer_pad_token_id = None, tokenizer_eos_token_id = Some 5,
      model_config_pad_token_id = None\<rparr> = None \<and>
   tokenizer_pad_token_id (set_pad_token
     \<lparr>tokenizer_pad_token_id = None, tokenizer_eos_token_id = Some 5,
      model_config_pad_token_id = None\<rparr>) = Some 5 \<and>
   tokenizer_pad_token_id
     \<lparr>tokenizer_pad_token_id = Some 0, tokenizer_eos_token_id = Some 5,
      model_config_pad_token_id = Some 0\<rparr> \<noteq> None \<and>
   set_pad_token
     \<lparr>tokenizer_pad_token_id = Some 0, tokenizer_eos_token_id = Some 5,
      model_config_pad_token_id = Some 0\<rparr> =
     \<lparr>tokenizer_pad_token_id = Some 0, tokenizer_eos_token_id = Some 5,
      model_config_pad_token_id = Some 0\<rparr> \<and>
   set_pad_token (set_pad_token
     \<lparr>tokenizer_pad_token_id = None, tokenizer_eos_token_id = Some 5,
      model_config_pad_token_id = None\<rparr>) =
     \<lparr>tokenizer_pad_token_id = Some 5, tokenizer_eos_token_id = Some 5,
      model_config_pad_token_id = Some 5\<rparr>"
  using C8_pad_token
    [of "\<lparr>tokenizer_pad_token_id = None, tokenizer_eos_token_id = Some 5,
      model_config_pad_token_id = None\<rparr>"]
    C8_pad_token
    [of "\<lparr>tokenizer_pad_token_id = Some 0, tokenizer_eos_token_id = Some 5,
      model_config_pad_token_id = Some 0\<rparr>"]
  by (simp add: set_pad_token_def)

subsection \<open>Inference\<close>

lemma py_bind_simps [simp]:
  "py_bind (Inl e) f = Inl e"
  "py_bind (Inr v) f = f v"
  by (simp_all add: py_bind_def)

lemma py_bind_eq_Inr:
  "py_bind r f = Inr y \<longleftrightarrow> (\<exists>v. r = Inr v \<and> f v = Inr y)"
  by (cases r) simp_all

lemma batched_Nil [simp]: "batched n [] = []"
  by (simp add: batched.simps)

lemma batched_Cons [simp]:
  "0 < n \<Longrightarrow> batched n (x # xs) = take n (x # xs) # batched n (drop n (x # xs))"
  by (subst batched.simps) simp

lemma compare_scores_verdicts:
  fixes sc :: "'s::preorder list"
  shows "verdicts_of_scores sc sr (compare_scores sc sr)"
  by (auto simp: verdicts_of_scores_def compare_scores_def)

lemma run_uniform_scores:
  assumes "run_uniform rp ds = Inr (vs, cs)"
  shows "\<exists>sc sr. uniform_scores rp ds = Inr (sc, sr) \<and> vs = compare_scores sc sr"
  using assms unfolding run_uniform_def uniform_scores_def
  by (auto simp: py_bind_eq_Inr)

lemma batch_step_scores:
  assumes "batch_step rp False batch = Inr (vs, cs)"
  shows "\<exists>sc sr. batch_scores rp batch = Inr (sc, sr) \<and> vs = compare_scores sc sr"
  using assms unfolding batch_step_def batch_scores_def
  by (auto simp: py_bind_eq_Inr)

lemma batch_loop_scalar:
  assumes "batch_loop rp dc False bs results calls = Inr (vs, cs)"
  shows "\<exists>scored.
           list_all2 (\<lambda>b p. \<exists>batch. custom_collate_fn dc b = Inr batch \<and>
                                batch_scores rp batch = Inr p) bs scored \<and>
           vs = results @ concat (map (\<lambda>p. compare_scores (fst p) (snd p)) scored)"
  using assms
proof (induction bs arbitrary: results calls)
  case Nil
  then show ?case by simp
next
  case (Cons b bs)
  from Cons.prems obtain batch v c where
    coll: "custom_collate_fn dc b = Inr batch" and
    step: "batch_step rp False batch = Inr (v, c)" and
    rest: "batch_loop rp dc False bs (results @ v) (calls @ c) = Inr (vs, cs)"
    by (auto split: sum.splits)
  from batch_step_scores [OF step] obtain sc sr where
    scores: "batch_scores rp batch = Inr (sc, sr)" and v: "v = compare_scores sc sr"
    by blast
  from Cons.IH [OF rest] obtain scored where
    scored: "list_all2 (\<lambda>b p. \<exists>batch. custom_collate_fn dc b = Inr batch \<and>
                                batch_scores rp batch = Inr p) bs scored"
    and vs: "vs = (results @ v) @ concat (map (\<lambda>p. compare_scores (fst p) (snd p)) scored)"
    by blast
  show ?case
    by (rule exI [of _ "(sc, sr) # scored"]) (use coll scores v scored vs in simp)
qed

lemma verdicts_of_scores_all:
  fixes scored :: "('s::preorder list \<times> 's list) list"
  shows "list_all2 (\<lambda>p v. verdicts_of_scores (fst p) (snd p) v) scored
           (map (\<lambda>p. compare_scores (fst p) (snd p)) scored)"
  by (induction scored) (simp_all add: compare_scores_verdicts)

lemma batch_step_native:
  assumes "batch_step rp True batch = Inr (v, c)"
  shows "\<exists>j. batch_texts batch ''text_chosen'' = Inr (texts_chosen j) \<and>
             batch_texts batch ''text_rejected'' = Inr (texts_rejected j) \<and>
             pair_call rp (PList (texts_chosen j)) (PList (texts_rejected j)) = Inr (judgments j) \<and>
             v = map (\<lambda>result. if result then 1 else 0) (judgments j) \<and>
             c = [PairCall (PList (texts_chosen j)) (PList (texts_rejected j))]"
proof -
  from assms obtain tr tc js where
    h: "batch_texts batch ''text_rejected'' = Inr tr" "batch_texts batch ''text_chosen'' = Inr tc"
      "pair_call rp (PList tc) (PList tr) = Inr js"
      "v = map (\<lambda>result. if result then 1 else 0) js" "c = [PairCall (PList tc) (PList tr)]"
    unfolding batch_step_def by (auto simp: py_bind_eq_Inr)
  show ?thesis
    by (rule exI [of _ "NativeStep tc tr js"])
       (use h in simp)
qed

lemma batch_loop_native:
  assumes "batch_loop rp dc True bs results calls = Inr (vs, cs)"
  shows "\<exists>judged.
           list_all2 (\<lambda>b j. \<exists>batch. custom_collate_fn dc b = Inr batch \<and>
              batch_texts batch ''text_chosen'' = Inr (texts_chosen j) \<and>
              batch_texts batch ''text_rejected'' = Inr (texts_rejected j) \<and>
              pair_call rp (PList (texts_chosen j)) (PList (texts_rejected j)) = Inr (judgments j))
             bs judged \<and>
           vs = results @ concat (map (\<lambda>j. map (\<lambda>result. if result then 1 else 0) (judgments j)) judged) \<and>
           cs = calls @ map (\<lambda>j. PairCall (PList (texts_chosen j)) (PList (texts_rejected j))) judged"
  using assms
proof (induction bs arbitrary: results calls)
  case Nil
  then show ?case by simp
next
  case (Cons b bs)
  from Cons.prems obtain batch v c where
    coll: "custom_collate_fn dc b = Inr batch" and
    step: "batch_step rp True batch = Inr (v, c)" and
    rest: "batch_loop rp dc True bs (results @ v) (calls @ c) = Inr (vs, cs)"
    by (auto split: sum.splits)
  from batch_step_native [OF step] obtain j where
    j: "batch_texts batch ''text_chosen'' = Inr (texts_chosen j)"
       "batch_texts batch ''text_rejected'' = Inr (texts_rejected j)"
       "pair_call rp (PList (texts_chosen j)) (PList (texts_rejected j)) = Inr (judgments j)"
       "v = map (\<lambda>result. if result then 1 else 0) (judgments j)"
       "c = [PairCall (PList (texts_chosen j)) (PList (texts_rejected j))]"
    by blast
  from Cons.IH [OF rest] obtain judged where
    judged: "list_all2 (\<lambda>b j. \<exists>batch. custom_collate_fn dc b = Inr batch \<and>
              batch_texts batch ''text_chosen'' = Inr (texts_chosen j) \<and>
              batch_texts batch ''text_rejected'' = Inr (texts_rejected j) \<and>
              pair_call rp (PList (texts_chosen j)) (PList (texts_rejected j)) = Inr (judgments j))
             bs judged"
    and vs: "vs = (results @ v) @ concat (map (\<lambda>j. map (\<lambda>result. if result then 1 else 0) (judgments j)) judged)"
    and cs: "cs = (calls @ c) @ map (\<lambda>j. PairCall (PList (texts_chosen j)) (PList (texts_rejected j))) judged"
    by blast
  show ?case
    by (rule exI [of _ "j # judged"]) (use coll j judged vs cs in simp)
qed

lemma native_adapter_branch:
  assumes "pipeline_builder (select_adapter m t) = PairRMPipeline \<or>
           pipeline_builder (select_adapter m t) = SHPPipeline"
  shows "pairwise_native m t"
  using assms by (auto simp: select_adapter_def pairwise_native_def split: if_splits)

lemma sample_uniform_run:
  "run_uniform sample_pipeline sample_formatted =
     Inr ([1, 0, 0],
          [ScoreCall (PList [PStr ''bb'', PStr ''bb'', PStr ''dd'']),
           ScoreCall (PList [PStr ''aaa'', PStr ''a'', PStr ''cc''])])"
  by (simp add: run_uniform_def sample_pipeline_def sample_formatted_def dataset_column_def
      getitem_def compare_scores_def sample_score_def)

lemma sample_manual_run:
  "run_manual sample_custom_pipeline sample_default_collate ''openbmb/UltraRM-13b'' ''tulu'' 2
       sample_formatted =
     Inr ([1, 0, 0],
          [ScoreCall (PList [PStr ''aaa'', PStr ''a'']), ScoreCall (PList [PStr ''bb'', PStr ''bb'']),
           ScoreCall (PList [PStr ''cc'']), ScoreCall (PList [PStr ''dd''])])"
  by (simp add: run_manual_def pairwise_native_def sample_custom_pipeline_def
      sample_formatted_def sample_default_collate_def custom_collate_fn_def batch_step_def
      getitem_def compare_scores_def sample_score_def)

lemma sample_native_run:
  "run_manual sample_native_pipeline sample_default_collate ''llm-blender/PairRM'' ''tulu'' 64
       sample_turns =
     Inr ([1, 0, 1],
          sample_native_calls)"
  by (simp add: run_manual_def pairwise_native_def sample_native_pipeline_def
      sample_turns_def custom_collate_fn_def batch_step_def
      getitem_def make_conversation_def sample_native_calls_def)

text \<open>
  Claim C4, as the code has it: the built-in (uniform batched) path is taken exactly when
  \<^verbatim>\<open>--direct_load\<close> is off or the selected pipeline builder is transformers' \<^verbatim>\<open>pipeline\<close>,
  which is exactly when the scoring callable was constructed by \<^verbatim>\<open>pipeline\<close>; the manual
  batch loop is taken exactly when \<^verbatim>\<open>--direct_load\<close> is on and the selected builder is a
  custom one.  On the built-in path the pipeline is called twice, once on the whole
  \<^verbatim>\<open>text_rejected\<close> column and once on the whole \<^verbatim>\<open>text_chosen\<close> column.
\<close>

theorem C4_mode_selection:
  "(inference_mode direct pb = UniformBatched \<longleftrightarrow> \<not> direct \<or> pb = pipeline) \<and>
   (inference_mode direct pb = ManualBatchLoop \<longleftrightarrow> direct \<and> pb \<noteq> pipeline) \<and>
   (inference_mode direct pb = UniformBatched \<longleftrightarrow> reward_pipe_constructor direct pb = pipeline) \<and>
   run_inference a pb rp dc ds =
     (if \<not> direct_load a \<or> pb = pipeline then run_uniform rp ds
      else run_manual rp dc (model a) (chat_template a) (batch_size a) ds) \<and>
   (run_uniform rp ds = Inr (vs, cs) \<longrightarrow>
      (\<exists>tc tr. dataset_column ds ''text_chosen'' = Inr tc \<and>
               dataset_column ds ''text_rejected'' = Inr tr \<and>
               cs = [ScoreCall (PList tr), ScoreCall (PList tc)]))"
proof -
  have mode: "inference_mode direct pb = UniformBatched \<longleftrightarrow> \<not> direct \<or> pb = pipeline"
    "inference_mode direct pb = ManualBatchLoop \<longleftrightarrow> direct \<and> pb \<noteq> pipeline"
    "inference_mode direct pb = UniformBatched \<longleftrightarrow> reward_pipe_constructor direct pb = pipeline"
    by (simp_all add: inference_mode_def reward_pipe_constructor_def)
  have run: "run_inference a pb rp dc ds =
     (if \<not> direct_load a \<or> pb = pipeline then run_uniform rp ds
      else run_manual rp dc (model a) (chat_template a) (batch_size a) ds)"
    by (simp add: run_inference_def inference_mode_def)
  have calls: "run_uniform rp ds = Inr (vs, cs) \<longrightarrow>
      (\<exists>tc tr. dataset_column ds ''text_chosen'' = Inr tc \<and>
               dataset_column ds ''text_rejected'' = Inr tr \<and>
               cs = [ScoreCall (PList tr), ScoreCall (PList tc)])"
    unfolding run_uniform_def by (auto simp: py_bind_eq_Inr)
  from mode run calls show ?thesis by blast
qed

theorem C4_witness:
  "inference_mode True (pipeline_builder (select_adapter ''openbmb/UltraRM-13b'' ''tulu''))
     = ManualBatchLoop \<and>
   inference_mode False (pipeline_builder (select_adapter ''openbmb/UltraRM-13b'' ''tulu''))
     = UniformBatched \<and>
   inference_mode True (pipeline_builder (select_adapter ''natolambert/gpt2-dummy-rm'' ''tulu''))
     = UniformBatched \<and>
   run_inference sample_args OpenBMBPipeline sample_custom_pipeline sample_default_collate
       sample_formatted =
     run_manual sample_custom_pipeline sample_default_collate ''openbmb/UltraRM-13b'' ''tulu'' 2
       sample_formatted \<and>
   run_uniform sample_pipeline sample_formatted =
     Inr ([1, 0, 0],
          [ScoreCall (PList [PStr ''bb'', PStr ''bb'', PStr ''dd'']),
           ScoreCall (PList [PStr ''aaa'', PStr ''a'', PStr ''cc''])]) \<and>
   dataset_column sample_formatted ''text_chosen'' = Inr [PStr ''aaa'', PStr ''a'', PStr ''cc''] \<and>
   dataset_column sample_formatted ''text_rejected'' = Inr [PStr ''bb'', PStr ''bb'', PStr ''dd'']"
proof -
  have ob: "pipeline_builder (select_adapter ''openbmb/UltraRM-13b'' ''tulu'') = OpenBMBPipeline"
    and ge: "pipeline_builder (select_adapter ''natolambert/gpt2-dummy-rm'' ''tulu'') = pipeline"
    by (simp_all add: select_adapter_def)
  have cols: "dataset_column sample_formatted ''text_chosen'' = Inr [PStr ''aaa'', PStr ''a'', PStr ''cc'']"
    "dataset_column sample_formatted ''text_rejected'' = Inr [PStr ''bb'', PStr ''bb'', PStr ''dd'']"
    by (simp_all add: dataset_column_def sample_formatted_def getitem_def)
  note inst = C4_mode_selection [where direct = True and pb = OpenBMBPipeline and a = sample_args
      and rp = sample_custom_pipeline and dc = sample_default_collate and ds = sample_formatted
      and vs = "[]" and cs = "[]"]
  have manual: "inference_mode True OpenBMBPipeline = ManualBatchLoop"
    using inst by simp
  have run: "run_inference sample_args OpenBMBPipeline sample_custom_pipeline
        sample_default_collate sample_formatted =
      run_manual sample_custom_pipeline sample_default_collate ''openbmb/UltraRM-13b'' ''tulu'' 2
        sample_formatted"
    using inst by (simp add: sample_args_def)
  have uniform: "inference_mode False OpenBMBPipeline = UniformBatched"
    by (simp add: inference_mode_def)
  have generic: "inference_mode True pipeline = UniformBatched"
    by (simp add: inference_mode_def)
  from ob ge cols manual run uniform generic sample_uniform_run show ?thesis by simp
qed

text \<open>
  The claim as worded decides by the selected adapter alone.  Without \<^verbatim>\<open>--direct_load\<close> the
  Starling adapter, which is not the generic kind, runs on the built-in path.
\<close>

theorem C4_counterexample:
  "pipeline_builder (select_adapter ''berkeley-nest/Starling-RM-7B-alpha'' ''tulu'') \<noteq> pipeline \<and>
   inference_mode False
     (pipeline_builder (select_adapter ''berkeley-nest/Starling-RM-7B-alpha'' ''tulu''))
     = UniformBatched"
  by (simp add: select_adapter_def inference_mode_def)

text \<open>
  Claim C1: on the built-in path, and in the manual loop when the pairwise-native branch is
  not taken, every verdict is the comparison of the chosen score with the rejected score at
  the same position of the score lists the pipeline returned: \<open>1\<close> exactly when the chosen
  score is strictly greater, \<open>0\<close> otherwise, in particular \<open>0\<close> on a tie.  In the loop the
  verdicts of the batches follow one another in batch order.
\<close>

theorem C1_verdict_strict_greater:
  fixes rp :: "('s::preorder) reward_pipe"
  shows
  "(run_uniform rp ds = Inr (vs, cs) \<longrightarrow>
      (\<exists>sc sr. uniform_scores rp ds = Inr (sc, sr) \<and> verdicts_of_scores sc sr vs)) \<and>
   (\<not> pairwise_native m t \<and> run_manual rp dc m t bs ds' = Inr (vs', cs') \<longrightarrow>
      (\<exists>scored vss.
         list_all2 (\<lambda>b p. \<exists>batch. custom_collate_fn dc b = Inr batch \<and>
                              batch_scores rp batch = Inr p)
           (batched (nat bs) (rows ds')) scored \<and>
         list_all2 (\<lambda>p v. verdicts_of_scores (fst p) (snd p) v) scored vss \<and>
         vs' = concat vss))"
proof (intro conjI impI)
  assume "run_uniform rp ds = Inr (vs, cs)"
  then obtain sc sr where "uniform_scores rp ds = Inr (sc, sr)" "vs = compare_scores sc sr"
    using run_uniform_scores by blast
  then show "\<exists>sc sr. uniform_scores rp ds = Inr (sc, sr) \<and> verdicts_of_scores sc sr vs"
    using compare_scores_verdicts by blast
next
  assume a: "\<not> pairwise_native m t \<and> run_manual rp dc m t bs ds' = Inr (vs', cs')"
  then have loop: "batch_loop rp dc False (batched (nat bs) (rows ds')) [] [] = Inr (vs', cs')"
    by (auto simp: run_manual_def split: if_splits)
  from batch_loop_scalar [OF loop] obtain scored where
    scored: "list_all2 (\<lambda>b p. \<exists>batch. custom_collate_fn dc b = Inr batch \<and>
                                batch_scores rp batch = Inr p)
               (batched (nat bs) (rows ds')) scored"
    and vs': "vs' = concat (map (\<lambda>p. compare_scores (fst p) (snd p)) scored)"
    by auto
  show "\<exists>scored vss.
         list_all2 (\<lambda>b p. \<exists>batch. custom_collate_fn dc b = Inr batch \<and>
                              batch_scores rp batch = Inr p)
           (batched (nat bs) (rows ds')) scored \<and>
         list_all2 (\<lambda>p v. verdicts_of_scores (fst p) (snd p) v) scored vss \<and>
         vs' = concat vss"
    by (rule exI [of _ scored],
        rule exI [of _ "map (\<lambda>p. compare_scores (fst p) (snd p)) scored"])
       (use scored vs' verdicts_of_scores_all in blast)
qed

theorem C1_witness:
  "run_uniform sample_pipeline sample_formatted =
     Inr ([1, 0, 0],
          [ScoreCall (PList [PStr ''bb'', PStr ''bb'', PStr ''dd'']),
           ScoreCall (PList [PStr ''aaa'', PStr ''a'', PStr ''cc''])]) \<and>
   uniform_scores sample_pipeline sample_formatted = Inr ([3, 1, 2], [2, 2, 2]) \<and>
   verdicts_of_scores [3, 1, 2] [2, 2, 2 :: real] [1, 0, 0] \<and>
   \<not> pairwise_native ''openbmb/UltraRM-13b'' ''tulu'' \<and>
   run_manual sample_custom_pipeline sample_default_collate ''openbmb/UltraRM-13b'' ''tulu'' 2
       sample_formatted =
     Inr ([1, 0, 0],
          [ScoreCall (PList [PStr ''aaa'', PStr ''a'']), ScoreCall (PList [PStr ''bb'', PStr ''bb'']),
           ScoreCall (PList [PStr ''cc'']), ScoreCall (PList [PStr ''dd''])]) \<and>
   (\<exists>scored vss.
      list_all2 (\<lambda>b p. \<exists>batch. custom_collate_fn sample_default_collate b = Inr batch \<and>
                           batch_scores sample_custom_pipeline batch = Inr p)
        (batched (nat 2) (rows sample_formatted)) scored \<and>
      list_all2 (\<lambda>p v. verdicts_of_scores (fst p) (snd p) v) scored vss \<and>
      [1, 0, 0] = concat vss)"
proof -
  have scores: "uniform_scores sample_pipeline sample_formatted = Inr ([3, 1, 2], [2, 2, 2])"
    by (simp add: uniform_scores_def sample_pipeline_def sample_formatted_def
        dataset_column_def getitem_def sample_score_def)
  have native: "\<not> pairwise_native ''openbmb/UltraRM-13b'' ''tulu''"
    by (simp add: pairwise_native_def)
  have c1: "verdicts_of_scores [3, 1, 2] [2, 2, 2 :: real] [1, 0, 0]"
    using C1_verdict_strict_greater [THEN conjunct1, THEN mp, OF sample_uniform_run] scores
    by simp
  note c2 = C1_verdict_strict_greater
    [THEN conjunct2, THEN mp, OF conjI [OF native sample_manual_run]]
  show ?thesis
    by (intro conjI) (rule sample_uniform_run scores c1 native sample_manual_run c2)+
qed

text \<open>
  Claim C9: when the PairRM or the SHP adapter is selected, the script run with
  \<^verbatim>\<open>--direct_load\<close> takes the manual loop and, in it, the pairwise-native branch.  In that
  branch each batch makes exactly one pipeline call, with the chosen and the rejected texts
  of the batch together, and every judgment of the call becomes a verdict directly,
  \<^verbatim>\<open>True\<close> as \<open>1\<close> and \<^verbatim>\<open>False\<close> as \<open>0\<close>, appended in order; the judgments
  \<^verbatim>\<open>[True, False, True]\<close> of a batch of three give the verdicts \<open>[1, 0, 1]\<close>.
\<close>

theorem C9_native_judgments:
  "(pipeline_builder (select_adapter m t) = PairRMPipeline \<or>
    pipeline_builder (select_adapter m t) = SHPPipeline \<longrightarrow>
      pairwise_native m t \<and>
      inference_mode True (pipeline_builder (select_adapter m t)) = ManualBatchLoop) \<and>
   (pairwise_native m t \<and> run_manual rp dc m t bs ds = Inr (vs, cs) \<longrightarrow>
      (\<exists>judged.
         list_all2 (\<lambda>b j. \<exists>batch. custom_collate_fn dc b = Inr batch \<and>
              batch_texts batch ''text_chosen'' = Inr (texts_chosen j) \<and>
              batch_texts batch ''text_rejected'' = Inr (texts_rejected j) \<and>
              pair_call rp (PList (texts_chosen j)) (PList (texts_rejected j)) = Inr (judgments j))
           (batched (nat bs) (rows ds)) judged \<and>
         vs = concat (map (\<lambda>j. map (\<lambda>result. if result then 1 else 0) (judgments j)) judged) \<and>
         cs = map (\<lambda>j. PairCall (PList (texts_chosen j)) (PList (texts_rejected j))) judged))"
proof (intro conjI impI)
  assume a: "pipeline_builder (select_adapter m t) = PairRMPipeline \<or>
    pipeline_builder (select_adapter m t) = SHPPipeline"
  then show "pairwise_native m t" by (rule native_adapter_branch)
  from a show "inference_mode True (pipeline_builder (select_adapter m t)) = ManualBatchLoop"
    by (auto simp: inference_mode_def)
next
  assume "pairwise_native m t \<and> run_manual rp dc m t bs ds = Inr (vs, cs)"
  then have "batch_loop rp dc True (batched (nat bs) (rows ds)) [] [] = Inr (vs, cs)"
    by (auto simp: run_manual_def split: if_splits)
  from batch_loop_native [OF this] show "\<exists>judged.
         list_all2 (\<lambda>b j. \<exists>batch. custom_collate_fn dc b = Inr batch \<and>
              batch_texts batch ''text_chosen'' = Inr (texts_chosen j) \<and>
              batch_texts batch ''text_rejected'' = Inr (texts_rejected j) \<and>
              pair_call rp (PList (texts_chosen j)) (PList (texts_rejected j)) = Inr (judgments j))
           (batched (nat bs) (rows ds)) judged \<and>
         vs = concat (map (\<lambda>j. map (\<lambda>result. if result then 1 else 0) (judgments j)) judged) \<and>
         cs = map (\<lambda>j. PairCall (PList (texts_chosen j)) (PList (texts_rejected j))) judged"
    by simp
qed

theorem C9_witness:
  "pipeline_builder (select_adapter ''llm-blender/PairRM'' ''tulu'') = PairRMPipeline \<and>
   pairwise_native ''llm-blender/PairRM'' ''tulu'' \<and>
   inference_mode True (pipeline_builder (select_adapter ''llm-blender/PairRM'' ''tulu''))
     = ManualBatchLoop \<and>
   run_manual sample_native_pipeline sample_default_collate ''llm-blender/PairRM'' ''tulu'' 64
       sample_turns = Inr ([1, 0, 1], sample_native_calls) \<and>
   (\<exists>judged.
      list_all2 (\<lambda>b j. \<exists>batch. custom_collate_fn sample_default_collate b = Inr batch \<and>
           batch_texts batch ''text_chosen'' = Inr (texts_chosen j) \<and>
           batch_texts batch ''text_rejected'' = Inr (texts_rejected j) \<and>
           pair_call sample_native_pipeline (PList (texts_chosen j)) (PList (texts_rejected j))
             = Inr (judgments j))
        (batched (nat 64) (rows sample_turns)) judged \<and>
      [1, 0, 1 :: int] = concat (map (\<lambda>j. map (\<lambda>result. if result then 1 else 0) (judgments j)) judged) \<and>
      sample_native_calls =
        map (\<lambda>j. PairCall (PList (texts_chosen j)) (PList (texts_rejected j))) judged)"
proof -
  have sel: "pipeline_builder (select_adapter ''llm-blender/PairRM'' ''tulu'') = PairRMPipeline"
    by (simp add: select_adapter_def)
  note inst = C9_native_judgments
    [where m = "''llm-blender/PairRM''" and t = "''tulu''" and rp = sample_native_pipeline
       and dc = sample_default_collate and bs = 64 and ds = sample_turns and vs = "[1, 0, 1]"
       and cs = sample_native_calls]
  note c1 = inst [THEN conjunct1, THEN mp, OF disjI1 [OF sel]]
  note native = c1 [THEN conjunct1] and mode = c1 [THEN conjunct2]
  note c2 = inst [THEN conjunct2, THEN mp, OF conjI [OF native sample_native_run]]
  show ?thesis
    by (intro conjI) (rule sel native mode sample_native_run c2)+
qed

subsection \<open>Dialogue formatting\<close>

lemma getitem_eq_Inr: "getitem d k = Inr v \<longleftrightarrow> map_of d k = Some v"
  by (simp add: getitem_def split: option.splits)

lemma map_of_setitem: "map_of (setitem k v d) k' = (if k' = k then Some v else map_of d k')"
  by (simp add: setitem_def update_conv')

lemma map_conversations_result:
  assumes "map_of ex ''prompt'' = Some p" "map_of ex ''chosen'' = Some c"
    "map_of ex ''rejected'' = Some r"
  shows "map_conversations ex =
     Inr (setitem ''text_rejected'' (make_conversation p r)
            (setitem ''text_chosen'' (make_conversation p c) ex))"
  using assms by (simp add: map_conversations_def getitem_def map_of_setitem)

lemma map_conversations_testsets_result:
  assumes "map_of ex ''prompt'' = Some (PList turns)" "map_of ex ''chosen'' = Some c"
    "map_of ex ''rejected'' = Some r"
  shows "map_conversations_testsets ex =
     Inr (setitem ''text_rejected''
            (PList (turns @ [PDict [(''role'', PStr ''assistant''), (''content'', r)]]))
            (setitem ''text_chosen''
               (PList (turns @ [PDict [(''role'', PStr ''assistant''), (''content'', c)]])) ex))"
  using assms by (simp add: map_conversations_testsets_def getitem_def map_of_setitem)

lemma map_err_Inr_D:
  "map_err f xs = Inr ys \<Longrightarrow> list_all2 (\<lambda>x y. f x = Inr y) xs ys"
proof (induction xs arbitrary: ys)
  case Nil
  then show ?case by simp
next
  case (Cons x xs)
  from Cons.prems obtain y ys' where "f x = Inr y" "map_err f xs = Inr ys'" "ys = y # ys'"
    by (auto split: sum.splits)
  with Cons.IH [of ys'] show ?case by simp
qed

lemma map_err_Inr_I:
  "list_all2 (\<lambda>x y. f x = Inr y) xs ys \<Longrightarrow> map_err f xs = Inr ys"
  by (induction rule: list_all2_induct) simp_all

lemma map_err_Inr: "map_err f xs = Inr ys \<longleftrightarrow> list_all2 (\<lambda>x y. f x = Inr y) xs ys"
  using map_err_Inr_D map_err_Inr_I by blast

lemma map_err_total:
  assumes "\<forall>x\<in>set xs. \<exists>y. f x = Inr y"
  shows "\<exists>ys. map_err f xs = Inr ys"
  using assms by (induction xs) auto

lemma map_of_drop_columns:
  "map_of (drop_columns cols r) k = (if k \<in> set cols then None else map_of r k)"
  by (induction r) (auto simp: drop_columns_def)

lemma fst_drop_columns: "k \<in> set cols \<Longrightarrow> k \<notin> fst ` set (drop_columns cols r)"
  by (auto simp: drop_columns_def)

lemma dataset_map_Inr:
  assumes "dataset_map f cols ds = Inr out"
  shows "set cols \<subseteq> set (column_names ds)"
    and "list_all2 (\<lambda>r r'. \<exists>e. f r = Inr e \<and> r' = drop_columns cols e) (rows ds) (rows out)"
    and "\<And>k. k \<in> set cols \<Longrightarrow> k \<notin> set (column_names out)"
proof -
  from assms show sub: "set cols \<subseteq> set (column_names ds)"
    by (auto simp: dataset_map_def split: if_splits)
  with assms obtain rs where rs: "map_err f (rows ds) = Inr rs"
    and out: "out = \<lparr>column_names =
               (case map (drop_columns cols) rs of
                  [] \<Rightarrow> filter (\<lambda>c. c \<notin> set cols) (column_names ds)
                | r # _ \<Rightarrow> map fst r),
             rows = map (drop_columns cols) rs\<rparr>"
    by (auto simp: dataset_map_def py_bind_eq_Inr Let_def split: if_splits)
  from rs have "list_all2 (\<lambda>x y. f x = Inr y) (rows ds) rs"
    by (simp add: map_err_Inr)
  then show "list_all2 (\<lambda>r r'. \<exists>e. f r = Inr e \<and> r' = drop_columns cols e) (rows ds) (rows out)"
    unfolding out by (auto simp: list_all2_map2 elim: list_all2_mono)
  show "k \<notin> set (column_names out)" if "k \<in> set cols" for k
    using that fst_drop_columns [OF that] unfolding out
    by (cases rs) auto
qed

lemma format_dataset_eq:
  "format_dataset pd custom pref raw =
     dataset_map (formatter pd custom pref) (removed_columns custom pref) raw"
  by (simp add: format_dataset_def formatter_def removed_columns_def)

lemma custom_formatter_texts:
  assumes "formatter pd True pref ex = Inr e"
  shows "map_of e ''text_chosen'' \<noteq> None \<and> map_of e ''text_rejected'' \<noteq> None"
proof (cases pref)
  case True
  with assms have "map_conversations_testsets ex = Inr e" by (simp add: formatter_def)
  then show ?thesis
    unfolding map_conversations_testsets_def
    by (auto simp: py_bind_eq_Inr Let_def map_of_setitem)
next
  case False
  with assms have "map_conversations ex = Inr e" by (simp add: formatter_def)
  then show ?thesis
    unfolding map_conversations_def
    by (auto simp: py_bind_eq_Inr Let_def map_of_setitem)
qed

lemma removed_columns_contains:
  "''prompt'' \<in> set (removed_columns custom pref)"
  "''chosen'' \<in> set (removed_columns custom pref)"
  "''rejected'' \<in> set (removed_columns custom pref)"
  "''text_chosen'' \<notin> set (removed_columns custom pref)"
  "''text_rejected'' \<notin> set (removed_columns custom pref)"
  by (simp_all add: removed_columns_def)

text \<open>
  Claim C6: for a record with prompt \<open>p\<close>, chosen response \<open>c\<close> and rejected response
  \<open>r\<close>, \<^verbatim>\<open>map_conversations\<close> returns a record whose \<^verbatim>\<open>text_chosen\<close> is the two-turn list of
  the user turn holding \<open>p\<close> and the assistant turn holding \<open>c\<close>, and whose
  \<^verbatim>\<open>text_rejected\<close> is the same with \<open>r\<close>; when the prompt is already a list of turns,
  \<^verbatim>\<open>map_conversations_testsets\<close> appends the assistant turn to that list.
\<close>

theorem C6_structured_turns:
  "(map_of ex ''prompt'' = Some p \<and> map_of ex ''chosen'' = Some c \<and>
    map_of ex ''rejected'' = Some r \<longrightarrow>
      (\<exists>ex'. map_conversations ex = Inr ex' \<and>
         map_of ex' ''text_chosen'' =
           Some (PList [PDict [(''role'', PStr ''user''), (''content'', p)],
                        PDict [(''role'', PStr ''assistant''), (''content'', c)]]) \<and>
         map_of ex' ''text_rejected'' =
           Some (PList [PDict [(''role'', PStr ''user''), (''content'', p)],
                        PDict [(''role'', PStr ''assistant''), (''content'', r)]]))) \<and>
   (map_of ex ''prompt'' = Some (PList turns) \<and> map_of ex ''chosen'' = Some c \<and>
    map_of ex ''rejected'' = Some r \<longrightarrow>
      (\<exists>ex'. map_conversations_testsets ex = Inr ex' \<and>
         map_of ex' ''text_chosen'' =
           Some (PList (turns @ [PDict [(''role'', PStr ''assistant''), (''content'', c)]])) \<and>
         map_of ex' ''text_rejected'' =
           Some (PList (turns @ [PDict [(''role'', PStr ''assistant''), (''content'', r)]]))))"
proof (intro conjI impI)
  assume a: "map_of ex ''prompt'' = Some p \<and> map_of ex ''chosen'' = Some c \<and>
    map_of ex ''rejected'' = Some r"
  then have "map_conversations ex =
     Inr (setitem ''text_rejected'' (make_conversation p r)
            (setitem ''text_chosen'' (make_conversation p c) ex))"
    by (intro map_conversations_result) simp_all
  then show "\<exists>ex'. map_conversations ex = Inr ex' \<and>
         map_of ex' ''text_chosen'' =
           Some (PList [PDict [(''role'', PStr ''user''), (''content'', p)],
                        PDict [(''role'', PStr ''assistant''), (''content'', c)]]) \<and>
         map_of ex' ''text_rejected'' =
           Some (PList [PDict [(''role'', PStr ''user''), (''content'', p)],
                        PDict [(''role'', PStr ''assistant''), (''content'', r)]])"
    by (simp add: map_of_setitem make_conversation_def)
next
  assume a: "map_of ex ''prompt'' = Some (PList turns) \<and> map_of ex ''chosen'' = Some c \<and>
    map_of ex ''rejected'' = Some r"
  then have "map_conversations_testsets ex =
     Inr (setitem ''text_rejected''
            (PList (turns @ [PDict [(''role'', PStr ''assistant''), (''content'', r)]]))
            (setitem ''text_chosen''
               (PList (turns @ [PDict [(''role'', PStr ''assistant''), (''content'', c)]])) ex))"
    by (intro map_conversations_testsets_result) simp_all
  then show "\<exists>ex'. map_conversations_testsets ex = Inr ex' \<and>
         map_of ex' ''text_chosen'' =
           Some (PList (turns @ [PDict [(''role'', PStr ''assistant''), (''content'', c)]])) \<and>
         map_of ex' ''text_rejected'' =
           Some (PList (turns @ [PDict [(''role'', PStr ''assistant''), (''content'', r)]]))"
    by (simp add: map_of_setitem)
qed

theorem C6_witness:
  "(map_of sample_example ''prompt'' = Some (PStr ''P'') \<and>
    map_of sample_example ''chosen'' = Some (PStr ''C'') \<and>
    map_of sample_example ''rejected'' = Some (PStr ''R'')) \<and>
   (\<exists>ex'. map_conversations sample_example = Inr ex' \<and>
      map_of ex' ''text_chosen'' =
        Some (PList [PDict [(''role'', PStr ''user''), (''content'', PStr ''P'')],
                     PDict [(''role'', PStr ''assistant''), (''content'', PStr ''C'')]]) \<and>
      map_of ex' ''text_rejected'' =
        Some (PList [PDict [(''role'', PStr ''user''), (''content'', PStr ''P'')],
                     PDict [(''role'', PStr ''assistant''), (''content'', PStr ''R'')]])) \<and>
   (map_of sample_testset_example ''prompt'' =
      Some (PList [PDict [(''role'', PStr ''user''), (''content'', PStr ''P'')]]) \<and>
    map_of sample_testset_example ''chosen'' = Some (PStr ''C'') \<and>
    map_of sample_testset_example ''rejected'' = Some (PStr ''R'')) \<and>
   (\<exists>ex'. map_conversations_testsets sample_testset_example = Inr ex' \<and>
      map_of ex' ''text_chosen'' =
        Some (PList ([PDict [(''role'', PStr ''user''), (''content'', PStr ''P'')]] @
                     [PDict [(''role'', PStr ''assistant''), (''content'', PStr ''C'')]])) \<and>
      map_of ex' ''text_rejected'' =
        Some (PList ([PDict [(''role'', PStr ''user''), (''content'', PStr ''P'')]] @
                     [PDict [(''role'', PStr ''assistant''), (''content'', PStr ''R'')]])))"
proof -
  have h1: "map_of sample_example ''prompt'' = Some (PStr ''P'') \<and>
    map_of sample_example ''chosen'' = Some (PStr ''C'') \<and>
    map_of sample_example ''rejected'' = Some (PStr ''R'')"
    by (simp add: sample_example_def)
  have h2: "map_of sample_testset_example ''prompt'' =
      Some (PList [PDict [(''role'', PStr ''user''), (''content'', PStr ''P'')]]) \<and>
    map_of sample_testset_example ''chosen'' = Some (PStr ''C'') \<and>
    map_of sample_testset_example ''rejected'' = Some (PStr ''R'')"
    by (simp add: sample_testset_example_def)
  note c1 = C6_structured_turns [THEN conjunct1, THEN mp, OF h1]
  note c2 = C6_structured_turns [THEN conjunct2, THEN mp, OF h2]
  show ?thesis
    by (rule conjI [OF h1 conjI [OF c1 conjI [OF h2 c2]]])
qed

lemma dataset_map_total:
  assumes "set cols \<subseteq> set (column_names ds)" and "\<forall>r \<in> set (rows ds). \<exists>e. f r = Inr e"
  shows "\<exists>out. dataset_map f cols ds = Inr out \<and> length (rows out) = length (rows ds)"
proof -
  from map_err_total [OF assms(2)] obtain rs where rs: "map_err f (rows ds) = Inr rs"
    by blast
  then have "length rs = length (rows ds)"
    by (simp add: map_err_Inr list_all2_lengthD)
  with rs assms(1) show ?thesis
    by (simp add: dataset_map_def Let_def)
qed

text \<open>
  Claim C7: when the formatting step returns, the formatted dataset has as many rows as the
  raw one, the row at each position is made from the raw row at that position alone (the
  branch's function applied to it, then the branch's columns dropped), no formatted row and
  no formatted column list has \<^verbatim>\<open>prompt\<close>, \<^verbatim>\<open>chosen\<close> or \<^verbatim>\<open>rejected\<close>, and under the
  structured-turn strategy every formatted row has \<^verbatim>\<open>text_chosen\<close> and \<^verbatim>\<open>text_rejected\<close>.
  The raw dataset is a value and stays what it was.  And the step does return, with one
  formatted row per raw row, under each strategy: under the template strategy when the
  three columns exist and the template formatter returns on every row; under the
  structured-turn strategy on a benchmark dataset whose rows all have the three fields; and
  under the structured-turn strategy on a preference test set whose prompts are lists of
  turns.
\<close>

theorem C7_formatting_order_preserving:
  "(format_dataset pd custom pref raw = Inr out \<longrightarrow>
      length (rows out) = length (rows raw) \<and>
      (\<forall>i < length (rows raw). \<exists>e.
          formatter pd custom pref (rows raw ! i) = Inr e \<and>
          rows out ! i = drop_columns (removed_columns custom pref) e) \<and>
      (\<forall>r \<in> set (rows out).
          map_of r ''prompt'' = None \<and> map_of r ''chosen'' = None \<and>
          map_of r ''rejected'' = None) \<and>
      ''prompt'' \<notin> set (column_names out) \<and> ''chosen'' \<notin> set (column_names out) \<and>
      ''rejected'' \<notin> set (column_names out) \<and>
      (custom \<longrightarrow> (\<forall>r \<in> set (rows out).
          map_of r ''text_chosen'' \<noteq> None \<and> map_of r ''text_rejected'' \<noteq> None))) \<and>
   (set [''prompt'', ''chosen'', ''rejected''] \<subseteq> set (column_names raw) \<and>
    (\<forall>r \<in> set (rows raw). \<exists>e. pd r = Inr e) \<longrightarrow>
      (\<exists>out'. format_dataset pd False pref raw = Inr out' \<and>
               length (rows out') = length (rows raw))) \<and>
   (set [''prompt'', ''chosen'', ''rejected'', ''subset''] \<subseteq> set (column_names raw) \<and>
    (\<forall>r \<in> set (rows raw).
        map_of r ''prompt'' \<noteq> None \<and> map_of r ''chosen'' \<noteq> None \<and>
        map_of r ''rejected'' \<noteq> None) \<longrightarrow>
      (\<exists>out'. format_dataset pd True False raw = Inr out' \<and>
               length (rows out') = length (rows raw))) \<and>
   (set [''prompt'', ''chosen'', ''rejected'', ''subset'', ''subsubset'']
      \<subseteq> set (column_names raw) \<and>
    (\<forall>r \<in> set (rows raw).
        (\<exists>turns. map_of r ''prompt'' = Some (PList turns)) \<and>
        map_of r ''chosen'' \<noteq> None \<and> map_of r ''rejected'' \<noteq> None) \<longrightarrow>
      (\<exists>out'. format_dataset pd True True raw = Inr out' \<and>
               length (rows out') = length (rows raw)))"
proof (intro conjI impI)
  assume ok: "format_dataset pd custom pref raw = Inr out"
  let ?f = "formatter pd custom pref" and ?cols = "removed_columns custom pref"
  from ok have m: "dataset_map ?f ?cols raw = Inr out" by (simp add: format_dataset_eq)
  note rel = dataset_map_Inr(2) [OF m] and cn = dataset_map_Inr(3) [OF m]
  from rel show len: "length (rows out) = length (rows raw)"
    by (simp add: list_all2_lengthD)
  from rel show "\<forall>i < length (rows raw). \<exists>e.
          ?f (rows raw ! i) = Inr e \<and> rows out ! i = drop_columns ?cols e"
    by (simp add: list_all2_conv_all_nth)
  have row: "\<exists>x e. ?f x = Inr e \<and> r = drop_columns ?cols e" if "r \<in> set (rows out)" for r
  proof -
    from that obtain i where i: "i < length (rows out)" "r = rows out ! i"
      by (auto simp: in_set_conv_nth)
    from list_all2_nthD2 [OF rel i(1)] i(2) show ?thesis by blast
  qed
  show "\<forall>r \<in> set (rows out).
          map_of r ''prompt'' = None \<and> map_of r ''chosen'' = None \<and>
          map_of r ''rejected'' = None"
  proof
    fix r assume "r \<in> set (rows out)"
    from row [OF this] obtain e where "r = drop_columns ?cols e" by blast
    then show "map_of r ''prompt'' = None \<and> map_of r ''chosen'' = None \<and>
          map_of r ''rejected'' = None"
      by (simp add: map_of_drop_columns removed_columns_contains)
  qed
  from cn show "''prompt'' \<notin> set (column_names out)" "''chosen'' \<notin> set (column_names out)"
    "''rejected'' \<notin> set (column_names out)"
    by (simp_all add: removed_columns_contains)
  show "\<forall>r \<in> set (rows out).
          map_of r ''text_chosen'' \<noteq> None \<and> map_of r ''text_rejected'' \<noteq> None" if custom
  proof
    fix r assume "r \<in> set (rows out)"
    from row [OF this] obtain x e where e: "?f x = Inr e" "r = drop_columns ?cols e" by blast
    from e(1) that have "map_of e ''text_chosen'' \<noteq> None \<and> map_of e ''text_rejected'' \<noteq> None"
      using custom_formatter_texts by simp
    with e(2) show "map_of r ''text_chosen'' \<noteq> None \<and> map_of r ''text_rejected'' \<noteq> None"
      by (simp add: map_of_drop_columns removed_columns_contains)
  qed
next
  assume a: "set [''prompt'', ''chosen'', ''rejected''] \<subseteq> set (column_names raw) \<and>
    (\<forall>r \<in> set (rows raw). \<exists>e. pd r = Inr e)"
  then have "\<exists>out'. dataset_map pd [''prompt'', ''chosen'', ''rejected''] raw = Inr out' \<and>
      length (rows out') = length (rows raw)"
    by (intro dataset_map_total) simp_all
  then show "\<exists>out'. format_dataset pd False pref raw = Inr out' \<and>
               length (rows out') = length (rows raw)"
    by (simp add: format_dataset_def)
next
  assume a: "set [''prompt'', ''chosen'', ''rejected'', ''subset''] \<subseteq> set (column_names raw) \<and>
    (\<forall>r \<in> set (rows raw).
        map_of r ''prompt'' \<noteq> None \<and> map_of r ''chosen'' \<noteq> None \<and>
        map_of r ''rejected'' \<noteq> None)"
  have "\<forall>r \<in> set (rows raw). \<exists>e. map_conversations r = Inr e"
  proof
    fix r assume "r \<in> set (rows raw)"
    with a obtain p c rj where "map_of r ''prompt'' = Some p" "map_of r ''chosen'' = Some c"
      "map_of r ''rejected'' = Some rj" by auto
    from map_conversations_result [OF this] show "\<exists>e. map_conversations r = Inr e" by blast
  qed
  with a have "\<exists>out'. dataset_map map_conversations
        [''prompt'', ''chosen'', ''rejected'', ''subset''] raw = Inr out' \<and>
      length (rows out') = length (rows raw)"
    by (intro dataset_map_total) simp_all
  then show "\<exists>out'. format_dataset pd True False raw = Inr out' \<and>
               length (rows out') = length (rows raw)"
    by (simp add: format_dataset_def)
next
  assume a: "set [''prompt'', ''chosen'', ''rejected'', ''subset'', ''subsubset'']
      \<subseteq> set (column_names raw) \<and>
    (\<forall>r \<in> set (rows raw).
        (\<exists>turns. map_of r ''prompt'' = Some (PList turns)) \<and>
        map_of r ''chosen'' \<noteq> None \<and> map_of r ''rejected'' \<noteq> None)"
  have "\<forall>r \<in> set (rows raw). \<exists>e. map_conversations_testsets r = Inr e"
  proof
    fix r assume "r \<in> set (rows raw)"
    with a obtain turns c rj where "map_of r ''prompt'' = Some (PList turns)"
      "map_of r ''chosen'' = Some c" "map_of r ''rejected'' = Some rj" by auto
    from map_conversations_testsets_result [OF this]
    show "\<exists>e. map_conversations_testsets r = Inr e" by blast
  qed
  with a have "\<exists>out'. dataset_map map_conversations_testsets
        [''prompt'', ''chosen'', ''rejected'', ''subset'', ''subsubset''] raw = Inr out' \<and>
      length (rows out') = length (rows raw)"
    by (intro dataset_map_total) simp_all
  then show "\<exists>out'. format_dataset pd True True raw = Inr out' \<and>
               length (rows out') = length (rows raw)"
    by (simp add: format_dataset_def)
qed

theorem C7_witness:
  "format_dataset Inr True False sample_raw = Inr sample_raw_formatted \<and>
   length (rows sample_raw_formatted) = length (rows sample_raw) \<and>
   length (rows sample_raw) = 2 \<and>
   ''prompt'' \<notin> set (column_names sample_raw_formatted) \<and>
   ''chosen'' \<notin> set (column_names sample_raw_formatted) \<and>
   ''rejected'' \<notin> set (column_names sample_raw_formatted) \<and>
   (\<exists>e. formatter Inr True False (rows sample_raw ! 1) = Inr e \<and>
        rows sample_raw_formatted ! 1 = drop_columns (removed_columns True False) e) \<and>
   (\<exists>out'. format_dataset Inr True False sample_raw = Inr out' \<and>
            length (rows out') = length (rows sample_raw)) \<and>
   format_dataset sample_prepare_dialogue False False sample_raw = Inr sample_raw_rendered \<and>
   length (rows sample_raw_rendered) = length (rows sample_raw) \<and>
   ''prompt'' \<notin> set (column_names sample_raw_rendered) \<and>
   (\<exists>out'. format_dataset sample_prepare_dialogue False False sample_raw = Inr out' \<and>
            length (rows out') = length (rows sample_raw)) \<and>
   format_dataset Inr True True sample_testset_raw = Inr sample_testset_formatted \<and>
   length (rows sample_testset_formatted) = length (rows sample_testset_raw) \<and>
   ''prompt'' \<notin> set (column_names sample_testset_formatted) \<and>
   (\<exists>out'. format_dataset Inr True True sample_testset_raw = Inr out' \<and>
            length (rows out') = length (rows sample_testset_raw))"
proof -
  have run: "format_dataset Inr True False sample_raw = Inr sample_raw_formatted"
    by (simp add: format_dataset_def dataset_map_def sample_raw_def sample_example_def
        sample_raw_formatted_def map_conversations_def getitem_def setitem_def
        drop_columns_def Let_def)
  have run_t: "format_dataset sample_prepare_dialogue False False sample_raw
      = Inr sample_raw_rendered"
    by (simp add: format_dataset_def dataset_map_def sample_raw_def sample_example_def
        sample_raw_rendered_def sample_prepare_dialogue_def getitem_def setitem_def
        drop_columns_def Let_def)
  have run_p: "format_dataset Inr True True sample_testset_raw = Inr sample_testset_formatted"
    by (simp add: format_dataset_def dataset_map_def sample_testset_raw_def
        sample_testset_example_def sample_testset_formatted_def
        map_conversations_testsets_def getitem_def setitem_def drop_columns_def Let_def)
  have len: "length (rows sample_raw) = 2"
    by (simp add: sample_raw_def)
  have h: "set [''prompt'', ''chosen'', ''rejected'', ''subset''] \<subseteq> set (column_names sample_raw) \<and>
    (\<forall>r \<in> set (rows sample_raw).
        map_of r ''prompt'' \<noteq> None \<and> map_of r ''chosen'' \<noteq> None \<and>
        map_of r ''rejected'' \<noteq> None)"
    by (simp add: sample_raw_def sample_example_def)
  have h_t: "set [''prompt'', ''chosen'', ''rejected''] \<subseteq> set (column_names sample_raw) \<and>
    (\<forall>r \<in> set (rows sample_raw). \<exists>e. sample_prepare_dialogue r = Inr e)"
    by (simp add: sample_raw_def sample_example_def sample_prepare_dialogue_def getitem_def)
  have h_p: "set [''prompt'', ''chosen'', ''rejected'', ''subset'', ''subsubset'']
      \<subseteq> set (column_names sample_testset_raw) \<and>
    (\<forall>r \<in> set (rows sample_testset_raw).
        (\<exists>turns. map_of r ''prompt'' = Some (PList turns)) \<and>
        map_of r ''chosen'' \<noteq> None \<and> map_of r ''rejected'' \<noteq> None)"
    by (simp add: sample_testset_raw_def sample_testset_example_def)
  note inst = C7_formatting_order_preserving
    [where pd = Inr and raw = sample_raw and custom = True and pref = False
       and out = sample_raw_formatted]
  note c1 = inst [THEN conjunct1, THEN mp, OF run]
  note c2 = inst [THEN conjunct2, THEN conjunct2, THEN conjunct1, THEN mp, OF h]
  note inst_t = C7_formatting_order_preserving
    [where pd = sample_prepare_dialogue and raw = sample_raw and custom = False
       and pref = False and out = sample_raw_rendered]
  note t1 = inst_t [THEN conjunct1, THEN mp, OF run_t]
  note t2 = inst_t [THEN conjunct2, THEN conjunct1, THEN mp, OF h_t]
  note inst_p = C7_formatting_order_preserving
    [where pd = Inr and raw = sample_testset_raw and custom = True and pref = True
       and out = sample_testset_formatted]
  note p1 = inst_p [THEN conjunct1, THEN mp, OF run_p]
  note p2 = inst_p [THEN conjunct2, THEN conjunct2, THEN conjunct2, THEN mp, OF h_p]
  from c1 have l: "length (rows sample_raw_formatted) = length (rows sample_raw)"
    and cols: "''prompt'' \<notin> set (column_names sample_raw_formatted)"
      "''chosen'' \<notin> set (column_names sample_raw_formatted)"
      "''rejected'' \<notin> set (column_names sample_raw_formatted)"
    and pos: "\<forall>i < length (rows sample_raw). \<exists>e.
          formatter Inr True False (rows sample_raw ! i) = Inr e \<and>
          rows sample_raw_formatted ! i = drop_columns (removed_columns True False) e"
    by simp_all
  from pos len have one: "\<exists>e. formatter Inr True False (rows sample_raw ! 1) = Inr e \<and>
        rows sample_raw_formatted ! 1 = drop_columns (removed_columns True False) e"
    by simp
  from t1 have lt: "length (rows sample_raw_rendered) = length (rows sample_raw)"
    and colt: "''prompt'' \<notin> set (column_names sample_raw_rendered)"
    by simp_all
  from p1 have lp: "length (rows sample_testset_formatted) = length (rows sample_testset_raw)"
    and colp: "''prompt'' \<notin> set (column_names sample_testset_formatted)"
    by simp_all
  show ?thesis
    by (rule conjI [OF run conjI [OF l conjI [OF len conjI [OF cols(1) conjI [OF cols(2)
          conjI [OF cols(3) conjI [OF one conjI [OF c2 conjI [OF run_t conjI [OF lt
          conjI [OF colt conjI [OF t2 conjI [OF run_p conjI [OF lp
          conjI [OF colp p2]]]]]]]]]]]]]]])
qed

subsection \<open>The report\<close>

lemma py_sum_from_PInt: "py_sum_from (PInt a) (map PInt xs) = Inr (PInt (a + sum_list xs))"
  by (induction xs arbitrary: a) simp_all

lemma py_sum_PInt: "py_sum (map PInt xs) = Inr (PInt (sum_list xs))"
  by (simp add: py_sum_def py_sum_from_PInt)

lemma py_eq_nan_right: "\<not> py_eq x (PFloat Nan)"
  by (cases x) (simp_all split: py_float.splits)

lemma py_eq_refl_hashable: "hashable l \<Longrightarrow> l \<noteq> PFloat Nan \<Longrightarrow> py_eq l l"
  by (cases l) (auto split: py_float.splits)

lemma py_truediv_nonzero: "nt \<noteq> 0 \<Longrightarrow> py_truediv nc nt \<noteq> Inl ZeroDivisionError"
  by (cases nc) simp_all

lemma py_truediv_Inr: "py_truediv nc nt = Inr acc \<Longrightarrow> nt \<noteq> 0"
  by (cases nc) (auto split: if_splits)

lemma unique_vals_set: "set (unique_vals xs) = set xs"
  by (induction xs rule: unique_vals.induct) auto

lemma unique_vals_distinct: "distinct (unique_vals xs)"
  by (induction xs rule: unique_vals.induct) (auto simp: unique_vals_set)

lemma group_verdicts_nonempty:
  assumes "l \<in> set labels" "py_eq l l" "length verdicts = length labels"
  shows "group_verdicts labels verdicts l \<noteq> []"
proof -
  from assms(1) obtain i where i: "i < length labels" "labels ! i = l"
    by (auto simp: in_set_conv_nth)
  with assms(3) have "(l, verdicts ! i) \<in> set (zip labels verdicts)"
    by (auto simp: set_zip)
  with assms(2) have "\<exists>p \<in> set (zip labels verdicts). py_eq (fst p) l"
    by force
  then show ?thesis
    unfolding group_verdicts_def by (simp add: filter_empty_conv)
qed

lemma group_verdicts_label:
  assumes "group_verdicts labels verdicts l \<noteq> []"
  shows "\<exists>x. py_eq x l"
  using assms unfolding group_verdicts_def by (auto simp: filter_empty_conv)

lemma add_column_Inr:
  assumes "add_column name col ds = Inr out"
  shows "name \<notin> set (column_names ds)" "length col = length (rows ds)"
    "column_names out = column_names ds @ [name]"
    "rows out = map (\<lambda>(r, v). setitem name v r) (zip (rows ds) col)"
  using assms by (auto simp: add_column_def split: if_splits)

lemma subset_flags:
  assumes "list_all2 (\<lambda>r lab. map_of r ''subset'' = Some lab) rs labels"
    and "length vs = length rs"
  shows "map_err (\<lambda>example. py_bind (getitem example ''subset'') (\<lambda>s. Inr (py_eq s l)))
           (map (\<lambda>(r, v). setitem ''results'' v r) (zip rs (map PInt vs)))
         = Inr (map (\<lambda>lab. py_eq lab l) labels)"
  using assms
proof (induction arbitrary: vs rule: list_all2_induct)
  case Nil
  then show ?case by simp
next
  case (Cons r rs lab labels)
  from Cons.prems obtain v vs' where vs: "vs = v # vs'" "length vs' = length rs"
    by (cases vs) auto
  from Cons.hyps(1) have "getitem (setitem ''results'' (PInt v) r) ''subset'' = Inr lab"
    by (simp add: getitem_def map_of_setitem)
  with Cons.IH [OF vs(2)] show ?case
    by (simp add: vs(1))
qed

lemma subset_results:
  assumes "list_all2 (\<lambda>r lab. map_of r ''subset'' = Some lab) rs labels"
    and "length vs = length rs"
  shows "map_err (\<lambda>r. getitem r ''results'')
           (map fst (filter snd
              (zip (map (\<lambda>(r, v). setitem ''results'' v r) (zip rs (map PInt vs)))
                   (map (\<lambda>lab. py_eq lab l) labels))))
         = Inr (map PInt (group_verdicts labels vs l))"
  using assms
proof (induction arbitrary: vs rule: list_all2_induct)
  case Nil
  then show ?case by (simp add: group_verdicts_def)
next
  case (Cons r rs lab labels)
  from Cons.prems obtain v vs' where vs: "vs = v # vs'" "length vs' = length rs"
    by (cases vs) auto
  have "getitem (setitem ''results'' (PInt v) r) ''results'' = Inr (PInt v)"
    by (simp add: getitem_def map_of_setitem)
  with Cons.IH [OF vs(2)] show ?case
    by (simp add: vs(1) group_verdicts_def)
qed

lemma subset_counts_exact:
  assumes add: "add_column ''results'' (map PInt vs) raw = Inr out"
    and col: "dataset_column raw ''subset'' = Inr labels"
  shows "subset_counts out l =
           Inr (PInt (sum_list (group_verdicts labels vs l)),
                int (length (group_verdicts labels vs l)))"
proof -
  note a = add_column_Inr [OF add]
  from col have "map_err (\<lambda>r. getitem r ''subset'') (rows raw) = Inr labels"
    by (auto simp: dataset_column_def split: if_splits)
  then have rel: "list_all2 (\<lambda>r lab. map_of r ''subset'' = Some lab) (rows raw) labels"
    by (simp add: map_err_Inr getitem_eq_Inr)
  from a(2) have len: "length vs = length (rows raw)" by simp
  have res: "''results'' \<in> set (column_names out)"
    by (simp add: a(3))
  show ?thesis
    unfolding subset_counts_def dataset_filter_def dataset_column_def
    by (simp add: a(4) subset_flags [OF rel len] subset_results [OF rel len] res py_sum_PInt)
qed

lemma report_loop_no_zero_division:
  assumes "\<forall>l \<in> set ls. \<exists>nc nt. subset_counts out l = Inr (nc, nt) \<and> nt \<noteq> 0"
  shows "report_loop out ls r0 \<noteq> Inl ZeroDivisionError"
  using assms
proof (induction ls arbitrary: r0)
  case Nil
  show ?case by simp
next
  case (Cons l ls)
  from Cons.prems obtain nc nt where c: "subset_counts out l = Inr (nc, nt)" "nt \<noteq> 0"
    by auto
  from Cons.prems have rest: "\<forall>l \<in> set ls. \<exists>nc nt. subset_counts out l = Inr (nc, nt) \<and> nt \<noteq> 0"
    by simp
  show ?case
    using c(1) py_truediv_nonzero [OF c(2), of nc] Cons.IH [OF rest]
    by (auto simp: report_set_def split: sum.splits)
qed

lemma report_loop_keys:
  assumes "report_loop out ls r0 = Inr r"
  shows "fst ` set r = fst ` set r0 \<union> set ls"
  using assms
proof (induction ls arbitrary: r0)
  case Nil
  then show ?case by simp
next
  case (Cons l ls)
  from Cons.prems obtain acc where
    rest: "report_loop out ls (setitem l (RNum acc) r0) = Inr r"
    by (auto simp: report_set_def split: sum.splits if_splits)
  have "fst ` set (setitem l (RNum acc) r0) = insert l (fst ` set r0)"
    by (simp add: setitem_def dom_update)
  with Cons.IH [OF rest] show ?case by auto
qed

lemma report_loop_steps:
  assumes "report_loop out ls r0 = Inr r"
  shows "\<forall>l \<in> set ls. \<exists>nc nt acc.
           subset_counts out l = Inr (nc, nt) \<and> py_truediv nc nt = Inr acc \<and> hashable l"
  using assms
proof (induction ls arbitrary: r0)
  case Nil
  show ?case by simp
next
  case (Cons l ls)
  from Cons.prems obtain nc nt acc where
    l: "subset_counts out l = Inr (nc, nt)" "py_truediv nc nt = Inr acc" "hashable l"
    and rest: "report_loop out ls (setitem l (RNum acc) r0) = Inr r"
    by (auto simp: report_set_def split: sum.splits if_splits)
  from Cons.IH [OF rest] l show ?case by auto
qed

lemma report_loop_values:
  assumes "\<forall>l \<in> set ls. subset_counts out l = Inr (PInt (nc l), nt l) \<and> nt l \<noteq> 0 \<and> hashable l"
  shows "\<exists>r. report_loop out ls r0 = Inr r \<and>
           (\<forall>k. map_of r k =
              (if k \<in> set ls
               then Some (RNum (Finite (real_of_int (nc k) / real_of_int (nt k))))
               else map_of r0 k))"
  using assms
proof (induction ls arbitrary: r0)
  case Nil
  show ?case by simp
next
  case (Cons l ls)
  let ?r1 = "setitem l (RNum (Finite (real_of_int (nc l) / real_of_int (nt l)))) r0"
  from Cons.prems have l: "subset_counts out l = Inr (PInt (nc l), nt l)" "nt l \<noteq> 0" "hashable l"
    and rest: "\<forall>l \<in> set ls. subset_counts out l = Inr (PInt (nc l), nt l) \<and> nt l \<noteq> 0 \<and> hashable l"
    by simp_all
  from Cons.IH [OF rest, of ?r1] obtain r where
    r: "report_loop out ls ?r1 = Inr r"
      "\<forall>k. map_of r k =
          (if k \<in> set ls then Some (RNum (Finite (real_of_int (nc k) / real_of_int (nt k))))
           else map_of ?r1 k)"
    by blast
  have step: "report_loop out (l # ls) r0 = report_loop out ls ?r1"
    using l by (simp add: report_set_def)
  show ?case
    by (rule exI [of _ r]) (use r step in \<open>simp add: map_of_setitem\<close>)
qed

lemma map_err_Inl:
  assumes "map_err f xs = Inl e"
  shows "\<exists>x \<in> set xs. f x = Inl e"
  using assms by (induction xs) (auto split: sum.splits)

lemma dataset_column_Inl:
  assumes "dataset_column ds k = Inl e"
  shows "e = KeyError"
proof (cases "k \<in> set (column_names ds)")
  case True
  with assms have "map_err (\<lambda>r. getitem r k) (rows ds) = Inl e"
    by (simp add: dataset_column_def)
  from map_err_Inl [OF this] show ?thesis
    by (auto simp: getitem_def split: option.splits)
next
  case False
  with assms show ?thesis by (simp add: dataset_column_def)
qed

lemma dataset_unique_Inl:
  assumes "dataset_unique ds k = Inl e"
  shows "e \<noteq> ZeroDivisionError"
proof (cases "dataset_column ds k")
  case (Inl e')
  with assms dataset_column_Inl [OF Inl] show ?thesis
    by (auto simp: dataset_unique_def split: if_splits)
next
  case (Inr col)
  with assms show ?thesis
    by (auto simp: dataset_unique_def split: if_splits)
qed

lemma dataset_unique_Inr:
  "dataset_unique ds k = Inr present \<longleftrightarrow>
     (\<exists>col. dataset_column ds k = Inr col \<and> present = unique_vals col)"
  by (auto simp: dataset_unique_def dataset_column_def py_bind_eq_Inr)

lemma add_column_Inl:
  assumes "add_column name col ds = Inl e"
  shows "e = ValueError"
  using assms by (auto simp: add_column_def split: if_splits)

lemma dataset_column_length:
  assumes "dataset_column ds k = Inr col"
  shows "length col = length (rows ds)"
proof -
  from assms have "map_err (\<lambda>r. getitem r k) (rows ds) = Inr col"
    by (auto simp: dataset_column_def split: if_splits)
  then show ?thesis
    by (simp add: map_err_Inr list_all2_lengthD)
qed

lemma process_results_unfold:
  assumes "add_column ''results'' (map PInt verdicts) raw = Inr out"
    and "dataset_column raw ''subset'' = Inr labels"
  shows "process_results m t raw verdicts =
     report_loop out (unique_vals labels)
       (setitem (PStr ''chat_template'') (RStr t) (setitem (PStr ''model'') (RStr m) []))"
proof -
  from assms(2) have "dataset_unique raw ''subset'' = Inr (unique_vals labels)"
    by (simp add: dataset_unique_Inr)
  with assms(1) show ?thesis
    by (simp add: process_results_def Let_def)
qed

lemma sample_benchmark_labels:
  "dataset_column sample_benchmark ''subset'' = Inr sample_labels"
  by (simp add: dataset_column_def sample_benchmark_def sample_labels_def getitem_def)

lemma sample_benchmark_report:
  "process_results ''natolambert/gpt2-dummy-rm'' ''tulu'' sample_benchmark [1, 0, 1, 1, 1]
     = Inr sample_report"
  by (simp add: process_results_def add_column_def dataset_unique_def dataset_column_def
      sample_benchmark_def subset_counts_def dataset_filter_def getitem_def setitem_def
      py_sum_def report_set_def sample_report_def Let_def)

text \<open>
  Claim C5: for a raw dataset with a \<^verbatim>\<open>subset\<close> column, no \<^verbatim>\<open>results\<close> column, one verdict
  per record and subset labels that can be dictionary keys and are equal to themselves, and
  for every label \<open>l\<close> of the subset column, the report step returns; \<^verbatim>\<open>num_correct\<close> is
  the sum of the verdicts of the records labelled \<open>l\<close>, \<^verbatim>\<open>num_total\<close> is their number, and
  the report holds their quotient under \<open>l\<close>.  The quotient is taken in the reals.
  Verdicts \<open>[1, 0, 1, 1]\<close> in a subset give \<open>3\<close>, \<open>4\<close> and \<open>0.75\<close>.
\<close>

theorem C5_subset_accuracy:
  "dataset_column raw ''subset'' = Inr labels \<and> ''results'' \<notin> set (column_names raw) \<and>
   length verdicts = length (rows raw) \<and> (\<forall>k \<in> set labels. hashable k \<and> py_eq k k) \<and>
   l \<in> set labels
   \<longrightarrow>
   (\<exists>out report.
      add_column ''results'' (map PInt verdicts) raw = Inr out \<and>
      subset_counts out l =
        Inr (PInt (sum_list (group_verdicts labels verdicts l)),
             int (length (group_verdicts labels verdicts l))) \<and>
      process_results m t raw verdicts = Inr report \<and>
      map_of report l =
        Some (RNum (Finite (real_of_int (sum_list (group_verdicts labels verdicts l)) /
                            real (length (group_verdicts labels verdicts l))))))"
proof
  assume a: "dataset_column raw ''subset'' = Inr labels \<and> ''results'' \<notin> set (column_names raw) \<and>
   length verdicts = length (rows raw) \<and> (\<forall>k \<in> set labels. hashable k \<and> py_eq k k) \<and>
   l \<in> set labels"
  then have col: "dataset_column raw ''subset'' = Inr labels"
    and fresh: "''results'' \<notin> set (column_names raw)"
    and len: "length verdicts = length (rows raw)"
    and hash: "\<forall>k \<in> set labels. hashable k \<and> py_eq k k" and l: "l \<in> set labels"
    by simp_all
  define out where "out =
    \<lparr>column_names = column_names raw @ [''results''],
     rows = map (\<lambda>(r, v). setitem ''results'' v r) (zip (rows raw) (map PInt verdicts))\<rparr>"
  have add: "add_column ''results'' (map PInt verdicts) raw = Inr out"
    using fresh len by (simp add: add_column_def out_def)
  let ?nc = "\<lambda>k. sum_list (group_verdicts labels verdicts k)"
  let ?nt = "\<lambda>k. int (length (group_verdicts labels verdicts k))"
  have counts: "subset_counts out k = Inr (PInt (?nc k), ?nt k)" for k
    by (rule subset_counts_exact [OF add col])
  have len': "length verdicts = length labels"
    using len dataset_column_length [OF col] by simp
  have "\<forall>k \<in> set (unique_vals labels).
          subset_counts out k = Inr (PInt (?nc k), ?nt k) \<and> ?nt k \<noteq> 0 \<and> hashable k"
    using counts hash group_verdicts_nonempty [OF _ _ len']
    by (simp add: unique_vals_set)
  from report_loop_values [OF this] obtain report where
    rep: "report_loop out (unique_vals labels)
            (setitem (PStr ''chat_template'') (RStr t) (setitem (PStr ''model'') (RStr m) []))
          = Inr report"
    and val: "\<forall>k. map_of report k =
         (if k \<in> set (unique_vals labels)
          then Some (RNum (Finite (real_of_int (?nc k) / real_of_int (?nt k))))
          else map_of (setitem (PStr ''chat_template'') (RStr t)
                         (setitem (PStr ''model'') (RStr m) [])) k)"
    by blast
  from rep have run: "process_results m t raw verdicts = Inr report"
    by (simp add: process_results_unfold [OF add col])
  from val l have acc: "map_of report l =
        Some (RNum (Finite (real_of_int (sum_list (group_verdicts labels verdicts l)) /
                            real (length (group_verdicts labels verdicts l)))))"
    by (simp add: unique_vals_set)
  show "\<exists>out report.
      add_column ''results'' (map PInt verdicts) raw = Inr out \<and>
      subset_counts out l =
        Inr (PInt (sum_list (group_verdicts labels verdicts l)),
             int (length (group_verdicts labels verdicts l))) \<and>
      process_results m t raw verdicts = Inr report \<and>
      map_of report l =
        Some (RNum (Finite (real_of_int (sum_list (group_verdicts labels verdicts l)) /
                            real (length (group_verdicts labels verdicts l)))))"
    by (rule exI [of _ out], rule exI [of _ report]) (use add counts run acc in simp)
qed

theorem C5_witness:
  "dataset_column sample_benchmark ''subset'' = Inr sample_labels \<and>
   group_verdicts sample_labels [1, 0, 1, 1, 1] (PStr ''alpacaeval-easy'') = [1, 0, 1, 1] \<and>
   (\<exists>out report.
      add_column ''results'' (map PInt [1, 0, 1, 1, 1]) sample_benchmark = Inr out \<and>
      subset_counts out (PStr ''alpacaeval-easy'') = Inr (PInt 3, 4) \<and>
      process_results ''natolambert/gpt2-dummy-rm'' ''tulu'' sample_benchmark [1, 0, 1, 1, 1]
        = Inr report \<and>
      map_of report (PStr ''alpacaeval-easy'') = Some (RNum (Finite 0.75)))"
proof -
  have g: "group_verdicts sample_labels [1, 0, 1, 1, 1] (PStr ''alpacaeval-easy'') = [1, 0, 1, 1]"
    by (simp add: group_verdicts_def sample_labels_def)
  have h: "dataset_column sample_benchmark ''subset'' = Inr sample_labels \<and>
    ''results'' \<notin> set (column_names sample_benchmark) \<and>
    length [1, 0, 1, 1, 1 :: int] = length (rows sample_benchmark) \<and>
    (\<forall>k \<in> set sample_labels. hashable k \<and> py_eq k k) \<and>
    PStr ''alpacaeval-easy'' \<in> set sample_labels"
    using sample_benchmark_labels by (simp add: sample_benchmark_def sample_labels_def)
  note c = C5_subset_accuracy
    [where raw = sample_benchmark and labels = sample_labels and verdicts = "[1, 0, 1, 1, 1]"
       and l = "PStr ''alpacaeval-easy''" and m = "''natolambert/gpt2-dummy-rm''"
       and t = "''tulu''", THEN mp, OF h]
  from c have "\<exists>out report.
      add_column ''results'' (map PInt [1, 0, 1, 1, 1]) sample_benchmark = Inr out \<and>
      subset_counts out (PStr ''alpacaeval-easy'') = Inr (PInt 3, 4) \<and>
      process_results ''natolambert/gpt2-dummy-rm'' ''tulu'' sample_benchmark [1, 0, 1, 1, 1]
        = Inr report \<and>
      map_of report (PStr ''alpacaeval-easy'') = Some (RNum (Finite 0.75))"
    unfolding g by simp
  with sample_benchmark_labels g show ?thesis by blast
qed

text \<open>
  Claim C10, as the code has it: for every raw dataset none of whose subset labels is
  \<^verbatim>\<open>nan\<close> (every label is equal to itself), and every list of verdicts, the report step
  never ends in a division by zero.  Whenever the step returns, the labels it loops over
  are the distinct values of the subset column, the keys of the report are these labels
  next to \<^verbatim>\<open>model\<close> and \<^verbatim>\<open>chat_template\<close>, and every label is equal to itself and has at
  least one record, so \<^verbatim>\<open>num_total\<close> is at least \<open>1\<close>.
\<close>

theorem C10_no_empty_subset:
  "((\<forall>labels. dataset_column raw ''subset'' = Inr labels \<longrightarrow> (\<forall>k \<in> set labels. py_eq k k))
      \<longrightarrow> process_results m t raw verdicts \<noteq> Inl ZeroDivisionError) \<and>
   (process_results m t raw verdicts = Inr report \<longrightarrow>
      (\<exists>labels out present.
         dataset_column raw ''subset'' = Inr labels \<and>
         add_column ''results'' (map PInt verdicts) raw = Inr out \<and>
         dataset_unique raw ''subset'' = Inr present \<and>
         distinct present \<and> set present = set labels \<and>
         fst ` set report = {PStr ''model'', PStr ''chat_template''} \<union> set labels \<and>
         (\<forall>l \<in> set present. py_eq l l \<and>
            (\<exists>nc nt. subset_counts out l = Inr (nc, nt) \<and> 1 \<le> nt))))"
proof -
  let ?r0 = "setitem (PStr ''chat_template'') (RStr t) (setitem (PStr ''model'') (RStr m) [])"
  have first: "process_results m t raw verdicts \<noteq> Inl ZeroDivisionError"
    if refl: "\<forall>labels. dataset_column raw ''subset'' = Inr labels \<longrightarrow>
        (\<forall>k \<in> set labels. py_eq k k)"
  proof (cases "add_column ''results'' (map PInt verdicts) raw")
    case (Inl e)
    with add_column_Inl [OF Inl] show ?thesis
      by (simp add: process_results_def)
  next
    case add: (Inr out)
    show ?thesis
    proof (cases "dataset_unique raw ''subset''")
      case (Inl e)
      with dataset_unique_Inl [OF Inl] add show ?thesis
        by (simp add: process_results_def Let_def)
    next
      case (Inr present)
      then obtain labels where col: "dataset_column raw ''subset'' = Inr labels"
        by (auto simp: dataset_unique_Inr)
      have len: "length verdicts = length labels"
        using add_column_Inr(2) [OF add] dataset_column_length [OF col] by simp
      have "\<forall>l \<in> set (unique_vals labels). \<exists>nc nt.
          subset_counts out l = Inr (nc, nt) \<and> nt \<noteq> 0"
      proof
        fix l assume "l \<in> set (unique_vals labels)"
        then have l: "l \<in> set labels" by (simp add: unique_vals_set)
        with refl col have "py_eq l l" by blast
        from group_verdicts_nonempty [OF l this len]
        have "int (length (group_verdicts labels verdicts l)) \<noteq> 0" by simp
        with subset_counts_exact [OF add col, of l]
        show "\<exists>nc nt. subset_counts out l = Inr (nc, nt) \<and> nt \<noteq> 0" by blast
      qed
      from report_loop_no_zero_division [OF this] show ?thesis
        by (simp add: process_results_unfold [OF add col])
    qed
  qed
  have second: "\<exists>labels out present.
         dataset_column raw ''subset'' = Inr labels \<and>
         add_column ''results'' (map PInt verdicts) raw = Inr out \<and>
         dataset_unique raw ''subset'' = Inr present \<and>
         distinct present \<and> set present = set labels \<and>
         fst ` set report = {PStr ''model'', PStr ''chat_template''} \<union> set labels \<and>
         (\<forall>l \<in> set present. py_eq l l \<and>
            (\<exists>nc nt. subset_counts out l = Inr (nc, nt) \<and> 1 \<le> nt))"
    if run: "process_results m t raw verdicts = Inr report"
  proof -
    from run obtain out where add: "add_column ''results'' (map PInt verdicts) raw = Inr out"
      by (cases "add_column ''results'' (map PInt verdicts) raw")
         (simp_all add: process_results_def)
    from run add obtain present where "dataset_unique raw ''subset'' = Inr present"
      by (cases "dataset_unique raw ''subset''")
         (simp_all add: process_results_def Let_def)
    then obtain labels where col: "dataset_column raw ''subset'' = Inr labels"
      by (auto simp: dataset_unique_Inr)
    from run have loop: "report_loop out (unique_vals labels) ?r0 = Inr report"
      by (simp add: process_results_unfold [OF add col])
    have keys: "fst ` set report = {PStr ''model'', PStr ''chat_template''} \<union> set labels"
      using report_loop_keys [OF loop]
      by (auto simp: setitem_def unique_vals_set)
    have uniq: "dataset_unique raw ''subset'' = Inr (unique_vals labels)"
      by (simp add: dataset_unique_Inr col)
    have each: "py_eq l l \<and> (\<exists>nc nt. subset_counts out l = Inr (nc, nt) \<and> 1 \<le> nt)"
      if "l \<in> set (unique_vals labels)" for l
    proof -
      from report_loop_steps [OF loop] that obtain nc nt acc where
        s: "subset_counts out l = Inr (nc, nt)" "py_truediv nc nt = Inr acc" "hashable l"
        by blast
      from s(1) subset_counts_exact [OF add col, of l]
      have nt: "nt = int (length (group_verdicts labels verdicts l))" by simp
      from py_truediv_Inr [OF s(2)] nt have ne: "group_verdicts labels verdicts l \<noteq> []"
        by auto
      then have pos: "1 \<le> nt" using nt by (cases "group_verdicts labels verdicts l") simp_all
      from group_verdicts_label [OF ne] py_eq_nan_right have "l \<noteq> PFloat Nan" by blast
      with s(3) have "py_eq l l" by (rule py_eq_refl_hashable)
      with s(1) pos show ?thesis by blast
    qed
    show ?thesis
      by (rule exI [of _ labels], rule exI [of _ out], rule exI [of _ "unique_vals labels"])
         (use col add uniq keys each in \<open>simp add: unique_vals_distinct unique_vals_set\<close>)
  qed
  from first second show ?thesis by blast
qed

theorem C10_witness:
  "process_results ''natolambert/gpt2-dummy-rm'' ''tulu'' sample_benchmark [1, 0, 1, 1, 1]
     = Inr sample_report \<and>
   process_results ''natolambert/gpt2-dummy-rm'' ''tulu'' sample_benchmark [1, 0, 1, 1, 1]
     \<noteq> Inl ZeroDivisionError \<and>
   (\<exists>labels out present.
         dataset_column sample_benchmark ''subset'' = Inr labels \<and>
         add_column ''results'' (map PInt [1, 0, 1, 1, 1]) sample_benchmark = Inr out \<and>
         dataset_unique sample_benchmark ''subset'' = Inr present \<and>
         distinct present \<and> set present = set labels \<and>
         fst ` set sample_report = {PStr ''model'', PStr ''chat_template''} \<union> set labels \<and>
         (\<forall>l \<in> set present. py_eq l l \<and>
            (\<exists>nc nt. subset_counts out l = Inr (nc, nt) \<and> 1 \<le> nt)))"
proof -
  have h: "\<forall>labels. dataset_column sample_benchmark ''subset'' = Inr labels \<longrightarrow>
      (\<forall>k \<in> set labels. py_eq k k)"
    by (simp add: sample_benchmark_labels sample_labels_def)
  note inst = C10_no_empty_subset
    [where m = "''natolambert/gpt2-dummy-rm''" and t = "''tulu''" and raw = sample_benchmark
       and verdicts = "[1, 0, 1, 1, 1]" and report = sample_report]
  note c1 = inst [THEN conjunct1, THEN mp, OF h]
  note c2 = inst [THEN conjunct2, THEN mp, OF sample_benchmark_report]
  show ?thesis
    by (rule conjI [OF sample_benchmark_report conjI [OF c1 c2]])
qed

text \<open>
  The claim as worded speaks of every input dataset.  A subset label \<^verbatim>\<open>nan\<close> is a
  distinct value of the subset column that no record's label is equal to: its group is
  empty and the division is \<open>0 / 0\<close>.
\<close>

theorem C10_counterexample:
  "dataset_unique sample_nan_benchmark ''subset'' = Inr [PFloat Nan] \<and>
   process_results ''natolambert/gpt2-dummy-rm'' ''tulu'' sample_nan_benchmark [1]
     = Inl ZeroDivisionError"
  by (simp add: process_results_def add_column_def dataset_unique_def dataset_column_def
      sample_nan_benchmark_def subset_counts_def dataset_filter_def getitem_def setitem_def
      py_sum_def Let_def)

end
